theory Spec2Isabelle
  imports Main
begin

section \<open>Data model of pkg/notifier/github/notify.go\<close>

text \<open>
  A Go \<open>error\<close> is represented by its message (\<open>err.Error()\<close>); a nil error is
  \<open>None\<close>. A Go function returning \<open>(v, error)\<close> whose value is only read on success
  returns a sum, \<open>Inl\<close> carrying the error.
\<close>

type_synonym err = string

text \<open>\<open>terraform.ParseResult\<close>, the fields \<open>Notify\<close> and \<open>updateLabels\<close> read.\<close>

record ParseResult =
  Result :: string
  ChangedResult :: string
  OutsideTerraform :: string
  Warning :: string
  HasAddOrUpdateOnly :: bool
  HasDestroy :: bool
  HasNoChanges :: bool
  HasPlanError :: bool
  HasParseError :: bool
  ExitCode :: int
  Error :: "err option"
  CreatedResources :: "string list"
  UpdatedResources :: "string list"
  DeletedResources :: "string list"
  ReplacedResources :: "string list"

text \<open>\<open>notifier.ParamExec\<close>: the caller's inputs of one invocation.\<close>

record ParamExec =
  CombinedOutput :: string
  Stdout :: string
  Stderr :: string
  ParamExitCode :: int
  CIName :: string

text \<open>
  \<open>terraform.CommonTemplate\<close>, the value bag handed to \<open>template.SetValue\<close>. The
  fields carry the prefix \<open>tpl\<close> because several share their name with a field of
  \<open>ParseResult\<close>.
\<close>

record CommonTemplate =
  tplResult :: string
  tplChangedResult :: string
  tplChangeOutsideTerraform :: string
  tplWarning :: string
  tplHasDestroy :: bool
  tplLink :: string
  tplUseRawOutput :: bool
  tplVars :: "string \<rightharpoonup> string"
  tplTemplates :: "string \<rightharpoonup> string"
  tplStdout :: string
  tplStderr :: string
  tplCombinedOutput :: string
  tplExitCode :: int
  tplErrorMessages :: "string list"
  tplCreatedResources :: "string list"
  tplUpdatedResources :: "string list"
  tplDeletedResources :: "string list"
  tplReplacedResources :: "string list"

text \<open>
  The parser is an interface value. \<open>Notify\<close> inspects its dynamic type with
  \<open>parser.(*terraform.PlanParser)\<close> and \<open>parser.(*terraform.ApplyParser)\<close>; the
  dynamic type is the field \<open>ParserType\<close>.
\<close>

datatype ParserKind = PlanParser | ApplyParser | OtherParser

record Parser =
  Parse :: "string \<Rightarrow> ParseResult"
  ParserType :: ParserKind

text \<open>
  A template is used through \<open>SetValue\<close> followed by \<open>Execute\<close>: a function from the
  value bag to the rendered body or an error.
\<close>

type_synonym Template = "CommonTemplate \<Rightarrow> err + string"

record PullRequest =
  Revision :: string
  Number :: int

record ResultLabels =
  AddOrUpdateLabel :: string
  DestroyLabel :: string
  NoChangesLabel :: string
  PlanErrorLabel :: string
  AddOrUpdateLabelColor :: string
  DestroyLabelColor :: string
  NoChangesLabelColor :: string
  PlanErrorLabelColor :: string

record Config =
  PR :: PullRequest
  CI :: string
  Parser :: Parser
  UseRawOutput :: bool
  Template :: Template
  ParseErrorTemplate :: Template
  ResultLabels :: ResultLabels
  Vars :: "string \<rightharpoonup> string"
  EmbeddedVarNames :: "string list"
  Templates :: "string \<rightharpoonup> string"

text \<open>
  A label as the reconciler reads it: \<open>Name\<close> and \<open>Color\<close> are what \<open>GetName()\<close> and
  \<open>GetColor()\<close> return (the empty string when the field is absent).
\<close>

record Label =
  Name :: string
  Color :: string

text \<open>
  \<open>*github.Response\<close>, of which only \<open>StatusCode\<close> is read. The pointer may be nil:
  a response is a \<open>Response option\<close>.
\<close>

record Response =
  StatusCode :: int

record PostOptions =
  PostNumber :: int
  PostRevision :: string

text \<open>
  The values of the metadata map \<open>map[string]interface{}\<close> built by
  \<open>getEmbeddedComment\<close>: strings, the PR number and the nested map of variables.
\<close>

datatype MetaValue = VString string | VInt int | VVars "string \<rightharpoonup> string"

type_synonym MetaData = "string \<rightharpoonup> MetaValue"

subsection \<open>Collaborators\<close>

text \<open>
  \<open>g.client\<close> gives access to the label API (\<open>g.client.API\<close>), the commits service
  and the comment service. All of them are network calls: each takes the state \<open>'s\<close> of
  the remote side and returns its answer with the new state. Nothing is assumed about
  them; the theorems hold for every client.

  \<open>IssuesAddLabels\<close> returns the label list together with the error, because the Go
  code ranges over the list whether or not the error is nil. \<open>IssuesRemoveLabel\<close>
  returns the response pointer and the error.
\<close>

record 's Client =
  IssuesListLabels :: "int \<Rightarrow> 's \<Rightarrow> (err + Label list) \<times> 's"
  IssuesAddLabels :: "int \<Rightarrow> string list \<Rightarrow> 's \<Rightarrow> (Label list \<times> err option) \<times> 's"
  IssuesRemoveLabel :: "int \<Rightarrow> string \<Rightarrow> 's \<Rightarrow> (Response option \<times> err option) \<times> 's"
  IssuesUpdateLabel :: "string \<Rightarrow> string \<Rightarrow> 's \<Rightarrow> err option \<times> 's"
  MergedPRNumber :: "string \<Rightarrow> 's \<Rightarrow> (err + int) \<times> 's"
  CommitsList :: "string \<Rightarrow> 's \<Rightarrow> (err + string list) \<times> 's"
  CommentPost :: "string \<Rightarrow> PostOptions \<Rightarrow> 's \<Rightarrow> err option \<times> 's"

text \<open>
  Functions that \<open>notify.go\<close> calls and that are declared elsewhere: the methods
  \<open>PullRequest.IsNumber\<close>, \<open>ResultLabels.HasAnyLabelDefined\<close>,
  \<open>ResultLabels.IsResultLabel\<close> and \<open>CommitsService.lastOne\<close> (whose error
  \<open>Notify\<close> discards), and \<open>metadata.SetCIEnv\<close> (applied to \<open>os.Getenv\<close>) and
  \<open>metadata.Convert\<close> of the metadata library. They are parameters of the model.
\<close>

record Deps =
  IsNumber :: "PullRequest \<Rightarrow> bool"
  HasAnyLabelDefined :: "ResultLabels \<Rightarrow> bool"
  IsResultLabel :: "ResultLabels \<Rightarrow> string \<Rightarrow> bool"
  lastOne :: "string list \<Rightarrow> string \<Rightarrow> string \<times> err option"
  SetCIEnv :: "string \<Rightarrow> MetaData \<Rightarrow> err + MetaData"
  Convert :: "MetaData \<Rightarrow> err + string"

subsection \<open>The calls made, as an observable\<close>

text \<open>
  Every call to the client is appended to a log, so that "no comment is posted" and
  "no label is changed" are statements about the run.
\<close>

datatype Call =
    ListLabelsCall int
  | AddLabelsCall int "string list"
  | RemoveLabelCall int string
  | UpdateLabelCall string string
  | MergedPRNumberCall string
  | CommitsListCall string
  | PostCall string PostOptions

record 's world =
  remote :: 's
  calls :: "Call list"

definition callListLabels :: "'s Client \<Rightarrow> int \<Rightarrow> 's world \<Rightarrow> (err + Label list) \<times> 's world" where
  "callListLabels cl n w =
     (case IssuesListLabels cl n (remote w) of
        (r, s) \<Rightarrow> (r, \<lparr>remote = s, calls = calls w @ [ListLabelsCall n]\<rparr>))"

definition callAddLabels ::
  "'s Client \<Rightarrow> int \<Rightarrow> string list \<Rightarrow> 's world \<Rightarrow> (Label list \<times> err option) \<times> 's world" where
  "callAddLabels cl n names w =
     (case IssuesAddLabels cl n names (remote w) of
        (r, s) \<Rightarrow> (r, \<lparr>remote = s, calls = calls w @ [AddLabelsCall n names]\<rparr>))"

definition callRemoveLabel ::
  "'s Client \<Rightarrow> int \<Rightarrow> string \<Rightarrow> 's world \<Rightarrow> (Response option \<times> err option) \<times> 's world" where
  "callRemoveLabel cl n name w =
     (case IssuesRemoveLabel cl n name (remote w) of
        (r, s) \<Rightarrow> (r, \<lparr>remote = s, calls = calls w @ [RemoveLabelCall n name]\<rparr>))"

definition callUpdateLabel ::
  "'s Client \<Rightarrow> string \<Rightarrow> string \<Rightarrow> 's world \<Rightarrow> err option \<times> 's world" where
  "callUpdateLabel cl name color w =
     (case IssuesUpdateLabel cl name color (remote w) of
        (r, s) \<Rightarrow> (r, \<lparr>remote = s, calls = calls w @ [UpdateLabelCall name color]\<rparr>))"

definition callMergedPRNumber ::
  "'s Client \<Rightarrow> string \<Rightarrow> 's world \<Rightarrow> (err + int) \<times> 's world" where
  "callMergedPRNumber cl revision w =
     (case MergedPRNumber cl revision (remote w) of
        (r, s) \<Rightarrow> (r, \<lparr>remote = s, calls = calls w @ [MergedPRNumberCall revision]\<rparr>))"

definition callCommitsList ::
  "'s Client \<Rightarrow> string \<Rightarrow> 's world \<Rightarrow> (err + string list) \<times> 's world" where
  "callCommitsList cl revision w =
     (case CommitsList cl revision (remote w) of
        (r, s) \<Rightarrow> (r, \<lparr>remote = s, calls = calls w @ [CommitsListCall revision]\<rparr>))"

definition callCommentPost ::
  "'s Client \<Rightarrow> string \<Rightarrow> PostOptions \<Rightarrow> 's world \<Rightarrow> err option \<times> 's world" where
  "callCommentPost cl body opts w =
     (case CommentPost cl body opts (remote w) of
        (r, s) \<Rightarrow> (r, \<lparr>remote = s, calls = calls w @ [PostCall body opts]\<rparr>))"

text \<open>
  A Go function either returns or panics. The only panic in \<open>notify.go\<close> is the
  dereference \<open>resp.StatusCode\<close> of a nil response in \<open>removeResultLabels\<close>.
\<close>

datatype 'a outcome = Panicked | Returned 'a

section \<open>Label reconciliation\<close>

subsection \<open>removeResultLabels\<close>

text \<open>
  The loop of \<open>removeResultLabels\<close> over the listed labels. \<open>labelColor\<close> is the local
  variable of that name. A removal error with a nil response panics; with a response
  whose status is not 404 the function returns the color found so far and the error;
  with status 404 the loop goes on.
\<close>

fun removeLoop ::
  "'s Client \<Rightarrow> Deps \<Rightarrow> Config \<Rightarrow> string \<Rightarrow> Label list \<Rightarrow> string \<Rightarrow> 's world
     \<Rightarrow> (string \<times> err option) outcome \<times> 's world" where
  "removeLoop cl d cfg label [] labelColor w = (Returned (labelColor, None), w)"
| "removeLoop cl d cfg label (l # ls) labelColor w =
     (if Name l = label then removeLoop cl d cfg label ls (Color l) w
      else if IsResultLabel d (ResultLabels cfg) (Name l) then
        (case callRemoveLabel cl (Number (PR cfg)) (Name l) w of
           ((resp, None), w') \<Rightarrow> removeLoop cl d cfg label ls labelColor w'
         | ((None, Some e), w') \<Rightarrow> (Panicked, w')
         | ((Some r, Some e), w') \<Rightarrow>
             if StatusCode r \<noteq> 404 then (Returned (labelColor, Some e), w')
             else removeLoop cl d cfg label ls labelColor w')
      else removeLoop cl d cfg label ls labelColor w)"

definition removeResultLabels ::
  "'s Client \<Rightarrow> Deps \<Rightarrow> Config \<Rightarrow> string \<Rightarrow> 's world
     \<Rightarrow> (string \<times> err option) outcome \<times> 's world" where
  "removeResultLabels cl d cfg label w =
     (case callListLabels cl (Number (PR cfg)) w of
        (Inl e, w') \<Rightarrow> (Returned ('''', Some e), w')
      | (Inr labels, w') \<Rightarrow> removeLoop cl d cfg label labels '''' w')"

subsection \<open>updateLabels\<close>

text \<open>The \<open>switch\<close> at the head of \<open>updateLabels\<close>: \<open>(labelToAdd, labelColor)\<close>.\<close>

definition selectLabel :: "ResultLabels \<Rightarrow> ParseResult \<Rightarrow> string \<times> string" where
  "selectLabel rl result =
     (if HasAddOrUpdateOnly result then (AddOrUpdateLabel rl, AddOrUpdateLabelColor rl)
      else if HasDestroy result then (DestroyLabel rl, DestroyLabelColor rl)
      else if HasNoChanges result then (NoChangesLabel rl, NoChangesLabelColor rl)
      else if HasPlanError result then (PlanErrorLabel rl, PlanErrorLabelColor rl)
      else ('''', ''''))"

definition removeMsg :: "err \<Rightarrow> string" where
  "removeMsg e = ''remove labels: '' @ e"

definition addMsg :: "string \<Rightarrow> err \<Rightarrow> string" where
  "addMsg labelToAdd e = ''add a label '' @ labelToAdd @ '': '' @ e"

definition colorMsg :: "string \<Rightarrow> string \<Rightarrow> err \<Rightarrow> string" where
  "colorMsg labelToAdd labelColor e =
     ''update a label color (name: '' @ labelToAdd @ '', color: '' @ labelColor @ ''): '' @ e"

text \<open>
  The loop over the labels returned by \<open>IssuesAddLabels\<close>, run when a color is
  configured: every returned label named \<open>labelToAdd\<close> whose color differs gets a
  color update.
\<close>

fun colorLoop ::
  "'s Client \<Rightarrow> string \<Rightarrow> string \<Rightarrow> Label list \<Rightarrow> string list \<Rightarrow> 's world
     \<Rightarrow> string list \<times> 's world" where
  "colorLoop cl labelToAdd labelColor [] errMsgs w = (errMsgs, w)"
| "colorLoop cl labelToAdd labelColor (l # ls) errMsgs w =
     (if labelToAdd = Name l \<and> Color l \<noteq> labelColor then
        (case callUpdateLabel cl labelToAdd labelColor w of
           (None, w') \<Rightarrow> colorLoop cl labelToAdd labelColor ls errMsgs w'
         | (Some e, w') \<Rightarrow>
             colorLoop cl labelToAdd labelColor ls
               (errMsgs @ [colorMsg labelToAdd labelColor e]) w')
      else colorLoop cl labelToAdd labelColor ls errMsgs w)"

text \<open>
  The part of \<open>updateLabels\<close> after the removal of stale labels, from
  \<open>if labelToAdd == ""\<close> to the final \<open>return errMsgs\<close>.
\<close>

definition applyLabel ::
  "'s Client \<Rightarrow> Config \<Rightarrow> string \<Rightarrow> string \<Rightarrow> string \<Rightarrow> string list \<Rightarrow> 's world
     \<Rightarrow> string list \<times> 's world" where
  "applyLabel cl cfg labelToAdd labelColor currentLabelColor errMsgs w =
     (if labelToAdd = '''' then (errMsgs, w)
      else if currentLabelColor = '''' then
        (case callAddLabels cl (Number (PR cfg)) [labelToAdd] w of
           ((labels, err), w') \<Rightarrow>
             (let errMsgs' =
                    (case err of None \<Rightarrow> errMsgs
                     | Some e \<Rightarrow> errMsgs @ [addMsg labelToAdd e])
              in if labelColor \<noteq> '''' then colorLoop cl labelToAdd labelColor labels errMsgs' w'
                 else (errMsgs', w')))
      else if labelColor \<noteq> '''' \<and> labelColor \<noteq> currentLabelColor then
        (case callUpdateLabel cl labelToAdd labelColor w of
           (None, w') \<Rightarrow> (errMsgs, w')
         | (Some e, w') \<Rightarrow> (errMsgs @ [colorMsg labelToAdd labelColor e], w'))
      else (errMsgs, w))"

definition updateLabels ::
  "'s Client \<Rightarrow> Deps \<Rightarrow> Config \<Rightarrow> ParseResult \<Rightarrow> 's world \<Rightarrow> string list outcome \<times> 's world" where
  "updateLabels cl d cfg result w =
     (case selectLabel (ResultLabels cfg) result of
        (labelToAdd, labelColor) \<Rightarrow>
          (case removeResultLabels cl d cfg labelToAdd w of
             (Panicked, w') \<Rightarrow> (Panicked, w')
           | (Returned (currentLabelColor, err), w') \<Rightarrow>
               (case applyLabel cl cfg labelToAdd labelColor currentLabelColor
                       (case err of None \<Rightarrow> [] | Some e \<Rightarrow> [removeMsg e]) w' of
                  (errMsgs, w'') \<Rightarrow> (Returned errMsgs, w''))))"

section \<open>Notify\<close>

subsection \<open>getEmbeddedComment\<close>

definition getVar :: "(string \<rightharpoonup> string) \<Rightarrow> string \<Rightarrow> string" where
  "getVar m name = (case m name of None \<Rightarrow> '''' | Some v \<Rightarrow> v)"

definition getEmbeddedComment :: "Deps \<Rightarrow> Config \<Rightarrow> string \<Rightarrow> bool \<Rightarrow> err + string" where
  "getEmbeddedComment d cfg ciName isPlan =
     (let vars = foldl (\<lambda>m name. m(name \<mapsto> getVar (Vars cfg) name)) Map.empty
                   (EmbeddedVarNames cfg);
          data0 = [''Program'' \<mapsto> VString ''tfcmt'', ''Vars'' \<mapsto> VVars vars,
                   ''SHA1'' \<mapsto> VString (Revision (PR cfg)),
                   ''PRNumber'' \<mapsto> VInt (Number (PR cfg))];
          target = getVar (Vars cfg) ''target'';
          data1 = (if target \<noteq> '''' then data0(''Target'' \<mapsto> VString target) else data0);
          data2 = data1(''Command'' \<mapsto> VString (if isPlan then ''plan'' else ''apply''))
      in case SetCIEnv d ciName data2 of
           Inl e \<Rightarrow> Inl e
         | Inr data3 \<Rightarrow> Convert d data3)"

subsection \<open>Notify\<close>

text \<open>The \<open>terraform.CommonTemplate\<close> literal passed to \<open>template.SetValue\<close>.\<close>

definition templateValues ::
  "Config \<Rightarrow> ParamExec \<Rightarrow> ParseResult \<Rightarrow> string list \<Rightarrow> CommonTemplate" where
  "templateValues cfg param result errMsgs =
     \<lparr>tplResult = Result result,
      tplChangedResult = ChangedResult result,
      tplChangeOutsideTerraform = OutsideTerraform result,
      tplWarning = Warning result,
      tplHasDestroy = HasDestroy result,
      tplLink = CI cfg,
      tplUseRawOutput = UseRawOutput cfg,
      tplVars = Vars cfg,
      tplTemplates = Templates cfg,
      tplStdout = Stdout param,
      tplStderr = Stderr param,
      tplCombinedOutput = CombinedOutput param,
      tplExitCode = ParamExitCode param,
      tplErrorMessages = errMsgs,
      tplCreatedResources = CreatedResources result,
      tplUpdatedResources = UpdatedResources result,
      tplDeletedResources = DeletedResources result,
      tplReplacedResources = ReplacedResources result\<rparr>"

text \<open>
  The end of \<open>Notify\<close>, from \<open>getEmbeddedComment\<close> to the final return: the marker is
  built from the local \<open>cfg\<close>, appended to the body, and the body is posted.
\<close>

definition embedAndPost ::
  "'s Client \<Rightarrow> Deps \<Rightarrow> Config \<Rightarrow> ParamExec \<Rightarrow> bool \<Rightarrow> int \<Rightarrow> string \<Rightarrow> 's world
     \<Rightarrow> (int \<times> err option) outcome \<times> 's world" where
  "embedAndPost cl d cfg param isPlan exitCode body w =
     (case getEmbeddedComment d cfg (CIName param) isPlan of
        Inl e \<Rightarrow> (Returned (exitCode, Some e), w)
      | Inr embeddedComment \<Rightarrow>
          (case callCommentPost cl (body @ embeddedComment)
                  \<lparr>PostNumber = Number (PR cfg), PostRevision = Revision (PR cfg)\<rparr> w of
             (Some e, w') \<Rightarrow> (Returned (exitCode, Some e), w')
           | (None, w') \<Rightarrow> (Returned (exitCode, None), w')))"

text \<open>
  The apply branch of \<open>Notify\<close>: the local \<open>cfg\<close> after the resolution of the pull
  request, or the fatal error of the commit listing.
\<close>

definition resolvePR ::
  "'s Client \<Rightarrow> Deps \<Rightarrow> Config \<Rightarrow> 's world \<Rightarrow> (err + Config) \<times> 's world" where
  "resolvePR cl d cfg w =
     (case callMergedPRNumber cl (Revision (PR cfg)) w of
        (Inr prNumber, w') \<Rightarrow> (Inr (cfg\<lparr>PR := (PR cfg)\<lparr>Number := prNumber\<rparr>\<rparr>), w')
      | (Inl _, w') \<Rightarrow>
          if \<not> IsNumber d (PR cfg) then
            (case callCommitsList cl (Revision (PR cfg)) w' of
               (Inl e, w'') \<Rightarrow> (Inl e, w'')
             | (Inr commits, w'') \<Rightarrow>
                 (Inr (cfg\<lparr>PR := (PR cfg)\<lparr>Revision :=
                          fst (lastOne d commits (Revision (PR cfg)))\<rparr>\<rparr>), w''))
          else (Inr cfg, w'))"

text \<open>
  The part of \<open>Notify\<close> after the checks on the parse result, run with the template they
  selected: label reconciliation for a plan parser, rendering, the apply branch, the
  marker and the post.
\<close>

definition notifyWith ::
  "'s Client \<Rightarrow> Deps \<Rightarrow> Config \<Rightarrow> Template \<Rightarrow> ParamExec \<Rightarrow> ParseResult \<Rightarrow> 's world
     \<Rightarrow> (int \<times> err option) outcome \<times> 's world" where
  "notifyWith cl d cfg template param result w =
     (let isPlan = (ParserType (Parser cfg) = PlanParser) in
      case (if isPlan \<and> IsNumber d (PR cfg) \<and> HasAnyLabelDefined d (ResultLabels cfg)
            then updateLabels cl d cfg result w else (Returned [], w)) of
        (Panicked, w1) \<Rightarrow> (Panicked, w1)
      | (Returned errMsgs, w1) \<Rightarrow>
          (case template (templateValues cfg param result errMsgs) of
             Inl e \<Rightarrow> (Returned (ExitCode result, Some e), w1)
           | Inr body \<Rightarrow>
               if ParserType (Parser cfg) = ApplyParser then
                 (case resolvePR cl d cfg w1 of
                    (Inl e, w2) \<Rightarrow> (Returned (ExitCode result, Some e), w2)
                  | (Inr cfg', w2) \<Rightarrow>
                      embedAndPost cl d cfg' param isPlan (ExitCode result) body w2)
               else embedAndPost cl d cfg param isPlan (ExitCode result) body w1))"

definition Notify ::
  "'s Client \<Rightarrow> Deps \<Rightarrow> Config \<Rightarrow> ParamExec \<Rightarrow> 's world
     \<Rightarrow> (int \<times> err option) outcome \<times> 's world" where
  "Notify cl d cfg param w =
     (let result = (Parse (Parser cfg) (CombinedOutput param))\<lparr>ExitCode := ParamExitCode param\<rparr>
      in if HasParseError result then
           notifyWith cl d cfg (ParseErrorTemplate cfg) param result w
         else if Error result \<noteq> None then (Returned (ExitCode result, Error result), w)
         else if Result result = '''' then (Returned (ExitCode result, Error result), w)
         else notifyWith cl d cfg (Template cfg) param result w)"

section \<open>Observations on a run\<close>

text \<open>The removal calls.\<close>

fun isRemoval :: "Call \<Rightarrow> bool" where
  "isRemoval (RemoveLabelCall n name) = True"
| "isRemoval c = False"

text \<open>
  The value of \<open>labelColor\<close> in \<open>removeResultLabels\<close> once the loop has passed the
  labels \<open>ls\<close>: the color of the last of them named \<open>label\<close>, and the value it had
  before if there is none.
\<close>

definition seenColor :: "string \<Rightarrow> Label list \<Rightarrow> string \<Rightarrow> string" where
  "seenColor label ls labelColor =
     foldl (\<lambda>c l. if Name l = label then Color l else c) labelColor ls"

text \<open>
  A client that answers as \<open>cl\<close> does, except that a removal answered with an error and
  status 404 is answered without error.
\<close>

definition ignoring404 :: "'s Client \<Rightarrow> 's Client" where
  "ignoring404 cl =
     cl\<lparr>IssuesRemoveLabel := (\<lambda>n name s.
          case IssuesRemoveLabel cl n name s of
            ((Some r, Some e), s') \<Rightarrow>
              if StatusCode r = 404 then ((Some r, None), s') else ((Some r, Some e), s')
          | other \<Rightarrow> other)\<rparr>"

section \<open>A label store and sample inputs\<close>

text \<open>
  An in-memory remote side, against which runs are evaluated: the names of the labels
  attached to the pull request, the color of every label name of the repository, the
  merged pull request of a revision, the commit list of a revision, and the comments
  posted so far. Its calls always succeed, except that removing a label that is not
  attached answers 404, looking up a revision without merged pull request fails, and
  listing the commits of an unknown revision fails.
\<close>

record Store =
  attached :: "string list"
  colorOf :: "string \<Rightarrow> string"
  mergedPR :: "string \<rightharpoonup> int"
  history :: "string \<rightharpoonup> string list"
  comments :: "(string \<times> PostOptions) list"

definition storeLabels :: "Store \<Rightarrow> Label list" where
  "storeLabels s = map (\<lambda>n. \<lparr>Name = n, Color = colorOf s n\<rparr>) (attached s)"

definition memClient :: "Store Client" where
  "memClient =
     \<lparr>IssuesListLabels = (\<lambda>n s. (Inr (storeLabels s), s)),
      IssuesAddLabels = (\<lambda>n names s.
         (let s' = s\<lparr>attached := attached s @ filter (\<lambda>x. x \<notin> set (attached s)) (remdups names)\<rparr>
          in ((storeLabels s', None), s'))),
      IssuesRemoveLabel = (\<lambda>n name s.
         if name \<in> set (attached s)
         then ((Some \<lparr>StatusCode = 200\<rparr>, None), s\<lparr>attached := removeAll name (attached s)\<rparr>)
         else ((Some \<lparr>StatusCode = 404\<rparr>, Some ''404 Not Found''), s)),
      IssuesUpdateLabel = (\<lambda>name color s. (None, s\<lparr>colorOf := (colorOf s)(name := color)\<rparr>)),
      MergedPRNumber = (\<lambda>revision s.
         (case mergedPR s revision of
            None \<Rightarrow> Inl ''associated pull request is not found''
          | Some n \<Rightarrow> Inr n, s)),
      CommitsList = (\<lambda>revision s.
         (case history s revision of
            None \<Rightarrow> Inl ''404 Not Found''
          | Some cs \<Rightarrow> Inr cs, s)),
      CommentPost = (\<lambda>body opts s. (None, s\<lparr>comments := comments s @ [(body, opts)]\<rparr>))\<rparr>"

text \<open>The same store behind a removal endpoint that answers every removal with an error.\<close>

definition failingRemoval :: "int \<Rightarrow> err \<Rightarrow> Store Client" where
  "failingRemoval status msg =
     memClient\<lparr>IssuesRemoveLabel := (\<lambda>n name s. ((Some \<lparr>StatusCode = status\<rparr>, Some msg), s))\<rparr>"

text \<open>
  The same store behind a removal endpoint whose requests fail before any response
  arrives: the error comes with a nil response.
\<close>

definition droppedRemoval :: "err \<Rightarrow> Store Client" where
  "droppedRemoval msg =
     memClient\<lparr>IssuesRemoveLabel := (\<lambda>n name s. ((None, Some msg), s))\<rparr>"

text \<open>
  The same store behind a removal endpoint that is out of order for a number of
  requests: while the counter is positive a removal answers 500, changes nothing and
  decrements the counter; afterwards the store answers.
\<close>

definition flakyRemoval :: "(nat \<times> Store) Client" where
  "flakyRemoval =
     \<lparr>IssuesListLabels = (\<lambda>n (k, s).
         case IssuesListLabels memClient n s of (r, s') \<Rightarrow> (r, (k, s'))),
      IssuesAddLabels = (\<lambda>n names (k, s).
         case IssuesAddLabels memClient n names s of (r, s') \<Rightarrow> (r, (k, s'))),
      IssuesRemoveLabel = (\<lambda>n name (k, s).
         if 0 < k
         then ((Some \<lparr>StatusCode = 500\<rparr>, Some ''500 Internal Server Error''), (k - 1, s))
         else (case IssuesRemoveLabel memClient n name s of (r, s') \<Rightarrow> (r, (k, s')))),
      IssuesUpdateLabel = (\<lambda>name color (k, s).
         case IssuesUpdateLabel memClient name color s of (r, s') \<Rightarrow> (r, (k, s'))),
      MergedPRNumber = (\<lambda>revision (k, s).
         case MergedPRNumber memClient revision s of (r, s') \<Rightarrow> (r, (k, s'))),
      CommitsList = (\<lambda>revision (k, s).
         case CommitsList memClient revision s of (r, s') \<Rightarrow> (r, (k, s'))),
      CommentPost = (\<lambda>body opts (k, s).
         case CommentPost memClient body opts s of (r, s') \<Rightarrow> (r, (k, s')))\<rparr>"

text \<open>
  The same store behind a color-update endpoint that answers without error and leaves
  the stored color as it is.
\<close>

definition keepingColor :: "Store Client" where
  "keepingColor = memClient\<lparr>IssuesUpdateLabel := (\<lambda>name color s. (None, s))\<rparr>"

text \<open>
  Modelled from the spec: the methods \<open>IsNumber\<close>, \<open>HasAnyLabelDefined\<close>,
  \<open>IsResultLabel\<close> and \<open>lastOne\<close> and the metadata library are not part of
  \<open>notify.go\<close>. These stand-ins follow the spec's words (a pull-request number is
  configured; at least one result label is configured; the name belongs to the known
  result-label set; the most recent commit found) and are used only to evaluate runs
  at concrete inputs. The theorems below hold for every \<open>Deps\<close>.
\<close>

definition sampleDeps :: Deps where
  "sampleDeps =
     \<lparr>IsNumber = (\<lambda>pr. Number pr \<noteq> 0),
      HasAnyLabelDefined = (\<lambda>rl. AddOrUpdateLabel rl \<noteq> '''' \<or> DestroyLabel rl \<noteq> ''''
                                 \<or> NoChangesLabel rl \<noteq> '''' \<or> PlanErrorLabel rl \<noteq> ''''),
      IsResultLabel = (\<lambda>rl name. name \<noteq> '''' \<and>
         name \<in> set [AddOrUpdateLabel rl, DestroyLabel rl, NoChangesLabel rl, PlanErrorLabel rl]),
      lastOne = (\<lambda>commits revision.
         case commits of [] \<Rightarrow> ('''', Some ''no commits'') | c # _ \<Rightarrow> (c, None)),
      SetCIEnv = (\<lambda>ciName data. Inr data),
      Convert = (\<lambda>data.
         Inr (''<!-- tfcmt '' @
              (case data ''Command'' of Some (VString c) \<Rightarrow> c | _ \<Rightarrow> '''') @ '' -->''))\<rparr>"

definition sampleLabels :: ResultLabels where
  "sampleLabels =
     \<lparr>AddOrUpdateLabel = ''add-or-update'', DestroyLabel = ''destroy'',
      NoChangesLabel = ''no-changes'', PlanErrorLabel = ''plan-error'',
      AddOrUpdateLabelColor = ''1d76db'', DestroyLabelColor = ''d93f0b'',
      NoChangesLabelColor = '''', PlanErrorLabelColor = ''b60205''\<rparr>"

definition emptyResult :: ParseResult where
  "emptyResult =
     \<lparr>Result = '''', ChangedResult = '''', OutsideTerraform = '''', Warning = '''',
      HasAddOrUpdateOnly = False, HasDestroy = False, HasNoChanges = False,
      HasPlanError = False, HasParseError = False, ExitCode = 0, Error = None,
      CreatedResources = [], UpdatedResources = [], DeletedResources = [],
      ReplacedResources = []\<rparr>"

definition sampleConfig :: "ParserKind \<Rightarrow> ParseResult \<Rightarrow> int \<Rightarrow> Config" where
  "sampleConfig k result number =
     \<lparr>PR = \<lparr>Revision = ''abc123'', Number = number\<rparr>,
      CI = ''https://ci.example/1'',
      Parser = \<lparr>Parse = (\<lambda>out. result), ParserType = k\<rparr>,
      UseRawOutput = False,
      Template = (\<lambda>v. Inr (''## Result: '' @ tplResult v)),
      ParseErrorTemplate = (\<lambda>v. Inr (''## Parse error: '' @ tplCombinedOutput v)),
      ResultLabels = sampleLabels,
      Vars = Map.empty,
      EmbeddedVarNames = [],
      Templates = Map.empty\<rparr>"

definition sampleParam :: ParamExec where
  "sampleParam =
     \<lparr>CombinedOutput = ''out'', Stdout = ''out'', Stderr = '''', ParamExitCode = 1,
      CIName = ''github-actions''\<rparr>"

definition sampleStore :: "string list \<Rightarrow> Store" where
  "sampleStore names =
     \<lparr>attached = names, colorOf = (\<lambda>n. ''''), mergedPR = Map.empty,
      history = [''abc123'' \<mapsto> [''def456'', ''abc123'']], comments = []\<rparr>"

definition startWorld :: "'s \<Rightarrow> 's world" where
  "startWorld s = \<lparr>remote = s, calls = []\<rparr>"

text \<open>
  The state of the store in which nothing is left to do for the target \<open>t\<close> with
  configured color \<open>lc\<close>: no other result label is attached, and the target, if there
  is one, is attached with a non-empty color that is the configured one whenever a
  color is configured.
\<close>

definition reconciled :: "Deps \<Rightarrow> Config \<Rightarrow> string \<Rightarrow> string \<Rightarrow> Store \<Rightarrow> bool" where
  "reconciled d cfg t lc s \<longleftrightarrow>
     (\<forall>x\<in>set (attached s). x = t \<or> \<not> IsResultLabel d (ResultLabels cfg) x) \<and>
     (t \<noteq> '''' \<longrightarrow> t \<in> set (attached s) \<and> colorOf s t \<noteq> '''' \<and> (lc = '''' \<or> colorOf s t = lc))"

text \<open>
  A client behaves as a label store, seen through \<open>view\<close>, when its calls succeed and
  do to the viewed store what their names say: listing returns the attached labels
  with their stored colors and changes nothing; a removal detaches the label and is
  answered without error, or with status 404; adding one label attaches it if it is
  not attached and returns the labels then attached; a color update stores the color.
\<close>

definition behavesAsStore :: "'s Client \<Rightarrow> ('s \<Rightarrow> Store) \<Rightarrow> bool" where
  "behavesAsStore cl view \<longleftrightarrow>
     (\<forall>n s. \<exists>s'. IssuesListLabels cl n s = (Inr (storeLabels (view s)), s') \<and>
        attached (view s') = attached (view s) \<and> colorOf (view s') = colorOf (view s)) \<and>
     (\<forall>n x s. \<exists>resp err s'. IssuesRemoveLabel cl n x s = ((resp, err), s') \<and>
        (err = None \<or> (\<exists>r. resp = Some r \<and> StatusCode r = 404)) \<and>
        attached (view s') = removeAll x (attached (view s)) \<and>
        colorOf (view s') = colorOf (view s)) \<and>
     (\<forall>n t s. \<exists>s'. IssuesAddLabels cl n [t] s = ((storeLabels (view s'), None), s') \<and>
        attached (view s') =
          attached (view s) @ filter (\<lambda>x. x \<notin> set (attached (view s))) [t] \<and>
        colorOf (view s') = colorOf (view s)) \<and>
     (\<forall>t c s. \<exists>s'. IssuesUpdateLabel cl t c s = (None, s') \<and>
        attached (view s') = attached (view s) \<and>
        colorOf (view s') = (colorOf (view s))(t := c))"

section \<open>Properties of Notify\<close>

lemmas call_defs = callListLabels_def callAddLabels_def callRemoveLabel_def
  callUpdateLabel_def callMergedPRNumber_def callCommitsList_def callCommentPost_def

lemmas sample_defs = sampleDeps_def sampleLabels_def emptyResult_def sampleConfig_def
  sampleParam_def sampleStore_def startWorld_def memClient_def failingRemoval_def
  storeLabels_def droppedRemoval_def flakyRemoval_def keepingColor_def

lemmas notify_defs = Notify_def notifyWith_def embedAndPost_def resolvePR_def
  getEmbeddedComment_def getVar_def templateValues_def updateLabels_def
  removeResultLabels_def applyLabel_def selectLabel_def

subsection \<open>The returned exit code\<close>

lemma embedAndPost_code:
  "fst (embedAndPost cl d cfg param isPlan code body w) = Returned (code, None) \<or>
   (\<exists>e. fst (embedAndPost cl d cfg param isPlan code body w) = Returned (code, Some e))"
  by (auto simp: embedAndPost_def split: sum.splits prod.splits option.splits)

lemma notifyWith_code:
  "fst (notifyWith cl d cfg t param result w) = Panicked \<or>
   (\<exists>e. fst (notifyWith cl d cfg t param result w) = Returned (ExitCode result, e))"
proof -
  have E: "\<And>c p b w'. fst (embedAndPost cl d c param p (ExitCode result) b w') \<noteq> Panicked \<Longrightarrow>
      \<exists>e. fst (embedAndPost cl d c param p (ExitCode result) b w') = Returned (ExitCode result, e)"
    using embedAndPost_code by metis
  show ?thesis
    unfolding notifyWith_def Let_def
    by (auto split: prod.splits outcome.splits sum.splits dest: E)
qed

text \<open>
  Claim C2. Whenever \<open>Notify\<close> returns, on whichever path, the integer it returns is
  the caller-supplied exit code \<open>param.ExitCode\<close>, whatever exit code the parser put
  into its result. (The only other outcome is the panic of the nil response in
  \<open>removeResultLabels\<close>, which returns nothing.)
\<close>

theorem Notify_exit_code:
  "fst (Notify cl d cfg param w) = Panicked \<or>
   (\<exists>e. fst (Notify cl d cfg param w) = Returned (ParamExitCode param, e))"
proof -
  let ?r = "(Parse (Parser cfg) (CombinedOutput param))\<lparr>ExitCode := ParamExitCode param\<rparr>"
  have "ExitCode ?r = ParamExitCode param" by simp
  then show ?thesis
    using notifyWith_code [of cl d cfg "ParseErrorTemplate cfg" param ?r w]
          notifyWith_code [of cl d cfg "Template cfg" param ?r w]
    unfolding Notify_def Let_def by auto
qed

text \<open>
  A run of the plan flow in which the parser inferred exit code 0 and the caller
  observed 1: the label is added, the comment is posted, and 1 is returned.
\<close>

theorem Notify_exit_code_witness:
  "Notify memClient sampleDeps
     (sampleConfig PlanParser (emptyResult\<lparr>Result := ''No changes.'', HasNoChanges := True\<rparr>) 7)
     sampleParam (startWorld (sampleStore [])) =
   (Returned (1, None),
    \<lparr>remote = (sampleStore [])\<lparr>attached := [''no-changes''],
        comments := [(''## Result: No changes.<!-- tfcmt plan -->'',
                      \<lparr>PostNumber = 7, PostRevision = ''abc123''\<rparr>)]\<rparr>,
     calls = [ListLabelsCall 7, AddLabelsCall 7 [''no-changes''],
              PostCall ''## Result: No changes.<!-- tfcmt plan -->''
                \<lparr>PostNumber = 7, PostRevision = ''abc123''\<rparr>]\<rparr>)"
  using Notify_exit_code [of memClient sampleDeps
     "sampleConfig PlanParser (emptyResult\<lparr>Result := ''No changes.'', HasNoChanges := True\<rparr>) 7"
     sampleParam "startWorld (sampleStore [])"]
  by (simp add: notify_defs call_defs sample_defs)

text \<open>Only the plan flow, which reconciles labels, can panic.\<close>

lemma notifyWith_returns:
  assumes "ParserType (Parser cfg) \<noteq> PlanParser"
  shows "\<exists>e. fst (notifyWith cl d cfg t param result w) = Returned (ExitCode result, e)"
proof -
  have "fst (notifyWith cl d cfg t param result w) \<noteq> Panicked"
    using assms unfolding notifyWith_def Let_def embedAndPost_def
    by (auto split: prod.splits outcome.splits sum.splits option.splits)
  then show ?thesis using notifyWith_code [of cl d cfg t param result w] by auto
qed

lemma Notify_returns:
  assumes "ParserType (Parser cfg) \<noteq> PlanParser"
  shows "\<exists>e. fst (Notify cl d cfg param w) = Returned (ParamExitCode param, e)"
proof -
  let ?r = "(Parse (Parser cfg) (CombinedOutput param))\<lparr>ExitCode := ParamExitCode param\<rparr>"
  have "ExitCode ?r = ParamExitCode param" by simp
  then show ?thesis
    using notifyWith_returns [OF assms, of cl d "ParseErrorTemplate cfg" param ?r w]
          notifyWith_returns [OF assms, of cl d "Template cfg" param ?r w]
    unfolding Notify_def Let_def by auto
qed

subsection \<open>The checks on the parse result\<close>

text \<open>
  Claim C1, amended. For every parse result with \<open>HasParseError = false\<close> and empty
  \<open>Result\<close> text, \<open>Notify\<close> returns the caller-supplied exit code together with the
  parser's \<open>Error\<close> (nil when the parser reported none) and makes no call at all: no
  comment is posted.
\<close>

theorem Notify_empty_result:
  assumes "\<not> HasParseError (Parse (Parser cfg) (CombinedOutput param))"
      and "Result (Parse (Parser cfg) (CombinedOutput param)) = ''''"
  shows "Notify cl d cfg param w =
           (Returned (ParamExitCode param, Error (Parse (Parser cfg) (CombinedOutput param))), w)"
  using assms unfolding Notify_def Let_def by auto

theorem Notify_empty_result_witness:
  "Notify memClient sampleDeps (sampleConfig PlanParser emptyResult 7) sampleParam
      (startWorld (sampleStore [])) = (Returned (1, None), startWorld (sampleStore []))"
  using Notify_empty_result [of "sampleConfig PlanParser emptyResult 7" sampleParam
      memClient sampleDeps "startWorld (sampleStore [])"]
  by (simp add: sampleConfig_def emptyResult_def sampleParam_def)

text \<open>
  The claim as stated fails twice. With an empty \<open>Result\<close> and a non-nil \<open>Error\<close> the
  error is returned, not nil. With an empty \<open>Result\<close> and \<open>HasParseError = true\<close> the
  run goes on and posts a comment rendered by the parse-error template.
\<close>

theorem Notify_empty_result_counterexample:
  "Result (emptyResult\<lparr>Error := Some ''cannot parse plan result''\<rparr>) = '''' \<and>
   fst (Notify memClient sampleDeps
          (sampleConfig PlanParser (emptyResult\<lparr>Error := Some ''cannot parse plan result''\<rparr>) 7)
          sampleParam (startWorld (sampleStore [])))
     = Returned (1, Some ''cannot parse plan result'') \<and>
   Result (emptyResult\<lparr>HasParseError := True\<rparr>) = '''' \<and>
   calls (snd (Notify memClient sampleDeps
          (sampleConfig ApplyParser (emptyResult\<lparr>HasParseError := True\<rparr>) 7)
          sampleParam (startWorld (sampleStore []))))
     = [MergedPRNumberCall ''abc123'',
        PostCall ''## Parse error: out<!-- tfcmt apply -->''
          \<lparr>PostNumber = 7, PostRevision = ''abc123''\<rparr>]"
  by (simp add: notify_defs call_defs sample_defs)

text \<open>
  Claim C3, amended. For every parse result with \<open>HasParseError = false\<close>, a non-nil
  \<open>Error\<close> and non-empty \<open>Result\<close> text, \<open>Notify\<close> returns that error together with the
  caller-supplied exit code and makes no call: no comment is posted.
\<close>

theorem Notify_parse_failure:
  assumes "\<not> HasParseError (Parse (Parser cfg) (CombinedOutput param))"
      and "Error (Parse (Parser cfg) (CombinedOutput param)) = Some e"
      and "Result (Parse (Parser cfg) (CombinedOutput param)) \<noteq> ''''"
  shows "Notify cl d cfg param w = (Returned (ParamExitCode param, Some e), w)"
  using assms unfolding Notify_def Let_def by auto

theorem Notify_parse_failure_witness:
  "Notify memClient sampleDeps
     (sampleConfig PlanParser
        (emptyResult\<lparr>Result := ''Error: Invalid reference'', Error := Some ''exit status 1''\<rparr>) 7)
     sampleParam (startWorld (sampleStore [''destroy''])) =
   (Returned (1, Some ''exit status 1''), startWorld (sampleStore [''destroy'']))"
  using Notify_parse_failure [of
     "sampleConfig PlanParser
        (emptyResult\<lparr>Result := ''Error: Invalid reference'', Error := Some ''exit status 1''\<rparr>) 7"
     sampleParam "''exit status 1''" memClient sampleDeps "startWorld (sampleStore [''destroy''])"]
  by (simp add: sampleConfig_def emptyResult_def sampleParam_def)

text \<open>
  The claim as stated fails when \<open>HasParseError\<close> is also set: the \<open>Error\<close> is then
  not looked at, the comment is posted and nil is returned.
\<close>

theorem Notify_parse_failure_counterexample:
  "Error (emptyResult\<lparr>Result := ''Error: Invalid reference'', HasParseError := True,
            Error := Some ''exit status 1''\<rparr>) = Some ''exit status 1'' \<and>
   Result (emptyResult\<lparr>Result := ''Error: Invalid reference'', HasParseError := True,
            Error := Some ''exit status 1''\<rparr>) \<noteq> '''' \<and>
   Notify memClient sampleDeps
     (sampleConfig OtherParser
        (emptyResult\<lparr>Result := ''Error: Invalid reference'', HasParseError := True,
            Error := Some ''exit status 1''\<rparr>) 7)
     sampleParam (startWorld (sampleStore [])) =
   (Returned (1, None),
    \<lparr>remote = (sampleStore [])\<lparr>comments := [(''## Parse error: out<!-- tfcmt apply -->'',
                      \<lparr>PostNumber = 7, PostRevision = ''abc123''\<rparr>)]\<rparr>,
     calls = [PostCall ''## Parse error: out<!-- tfcmt apply -->''
                \<lparr>PostNumber = 7, PostRevision = ''abc123''\<rparr>]\<rparr>)"
  by (simp add: notify_defs call_defs sample_defs)

subsection \<open>The parse-error template\<close>












subsection \<open>The apply flow\<close>

text \<open>
  Claim C9. In the apply flow, once the body is rendered: a successful merged-PR lookup
  sets the PR number of the local configuration to the number found; a failed lookup
  with a known PR number is ignored and no commit listing is made; a failed lookup
  with no PR number lists the commits of the revision, and then either the listing
  error is returned from \<open>Notify\<close> with the caller-supplied exit code, or the revision
  is set to the commit selected by \<open>lastOne\<close>. The marker and the post use the
  configuration so changed.
\<close>

theorem Notify_apply_flow:
  assumes kind: "ParserType (Parser cfg) = ApplyParser"
      and r: "r = (Parse (Parser cfg) (CombinedOutput param))\<lparr>ExitCode := ParamExitCode param\<rparr>"
      and passed: "HasParseError r \<or> (Error r = None \<and> Result r \<noteq> '''')"
      and render: "(if HasParseError r then ParseErrorTemplate cfg else Template cfg)
                     (templateValues cfg param r []) = Inr body"
  shows "(\<forall>n s. MergedPRNumber cl (Revision (PR cfg)) (remote w) = (Inr n, s) \<longrightarrow>
            Notify cl d cfg param w =
              embedAndPost cl d (cfg\<lparr>PR := (PR cfg)\<lparr>Number := n\<rparr>\<rparr>) param False
                (ParamExitCode param) body
                \<lparr>remote = s, calls = calls w @ [MergedPRNumberCall (Revision (PR cfg))]\<rparr>)
       \<and> (\<forall>e s. MergedPRNumber cl (Revision (PR cfg)) (remote w) = (Inl e, s)
              \<and> IsNumber d (PR cfg) \<longrightarrow>
            Notify cl d cfg param w =
              embedAndPost cl d cfg param False (ParamExitCode param) body
                \<lparr>remote = s, calls = calls w @ [MergedPRNumberCall (Revision (PR cfg))]\<rparr>)
       \<and> (\<forall>e s e' s'. MergedPRNumber cl (Revision (PR cfg)) (remote w) = (Inl e, s)
              \<and> \<not> IsNumber d (PR cfg)
              \<and> CommitsList cl (Revision (PR cfg)) s = (Inl e', s') \<longrightarrow>
            Notify cl d cfg param w =
              (Returned (ParamExitCode param, Some e'),
               \<lparr>remote = s', calls = calls w @ [MergedPRNumberCall (Revision (PR cfg)),
                                                 CommitsListCall (Revision (PR cfg))]\<rparr>))
       \<and> (\<forall>e s commits s'. MergedPRNumber cl (Revision (PR cfg)) (remote w) = (Inl e, s)
              \<and> \<not> IsNumber d (PR cfg)
              \<and> CommitsList cl (Revision (PR cfg)) s = (Inr commits, s') \<longrightarrow>
            Notify cl d cfg param w =
              embedAndPost cl d
                (cfg\<lparr>PR := (PR cfg)\<lparr>Revision := fst (lastOne d commits (Revision (PR cfg)))\<rparr>\<rparr>)
                param False (ParamExitCode param) body
                \<lparr>remote = s', calls = calls w @ [MergedPRNumberCall (Revision (PR cfg)),
                                                  CommitsListCall (Revision (PR cfg))]\<rparr>)"
proof -
  have N: "Notify cl d cfg param w =
      (case resolvePR cl d cfg w of
         (Inl e, w2) \<Rightarrow> (Returned (ParamExitCode param, Some e), w2)
       | (Inr cfg', w2) \<Rightarrow> embedAndPost cl d cfg' param False (ParamExitCode param) body w2)"
    using kind passed render unfolding r Notify_def notifyWith_def Let_def
    by (auto split: if_splits prod.splits sum.splits)
  show ?thesis
    unfolding N by (simp add: resolvePR_def callMergedPRNumber_def callCommitsList_def)
qed

text \<open>
  The fallback at work: no PR number, no merged pull request for the revision, two
  commits listed. The comment is addressed by the revision \<open>lastOne\<close> selected.
\<close>

theorem Notify_apply_flow_witness:
  "ParserType (Parser (sampleConfig ApplyParser (emptyResult\<lparr>Result := ''Apply complete!''\<rparr>) 0))
     = ApplyParser \<and>
   \<not> IsNumber sampleDeps (PR (sampleConfig ApplyParser
         (emptyResult\<lparr>Result := ''Apply complete!''\<rparr>) 0)) \<and>
   Notify memClient sampleDeps
     (sampleConfig ApplyParser (emptyResult\<lparr>Result := ''Apply complete!''\<rparr>) 0)
     sampleParam (startWorld (sampleStore [])) =
   (Returned (1, None),
    \<lparr>remote = (sampleStore [])\<lparr>comments := [(''## Result: Apply complete!<!-- tfcmt apply -->'',
                      \<lparr>PostNumber = 0, PostRevision = ''def456''\<rparr>)]\<rparr>,
     calls = [MergedPRNumberCall ''abc123'', CommitsListCall ''abc123'',
              PostCall ''## Result: Apply complete!<!-- tfcmt apply -->''
                \<lparr>PostNumber = 0, PostRevision = ''def456''\<rparr>]\<rparr>)"
proof -
  let ?res = "emptyResult\<lparr>Result := ''Apply complete!''\<rparr>"
  let ?cfg = "sampleConfig ApplyParser ?res 0"
  let ?r = "(Parse (Parser ?cfg) (CombinedOutput sampleParam))\<lparr>ExitCode := ParamExitCode sampleParam\<rparr>"
  have kind: "ParserType (Parser ?cfg) = ApplyParser"
    by (simp add: sampleConfig_def)
  have passed: "HasParseError ?r \<or> (Error ?r = None \<and> Result ?r \<noteq> '''')"
    by (simp add: sampleConfig_def emptyResult_def)
  have render: "(if HasParseError ?r then ParseErrorTemplate ?cfg else Template ?cfg)
                  (templateValues ?cfg sampleParam ?r []) = Inr ''## Result: Apply complete!''"
    by (simp add: sampleConfig_def emptyResult_def templateValues_def)
  note flow = Notify_apply_flow [OF kind refl passed render, of memClient
      "startWorld (sampleStore [])" sampleDeps]
  have lookup: "MergedPRNumber memClient (Revision (PR ?cfg)) (remote (startWorld (sampleStore [])))
      = (Inl ''associated pull request is not found'', sampleStore [])"
    by (simp add: sample_defs)
  have unknown: "\<not> IsNumber sampleDeps (PR ?cfg)"
    by (simp add: sample_defs)
  have listing: "CommitsList memClient (Revision (PR ?cfg)) (sampleStore [])
      = (Inr [''def456'', ''abc123''], sampleStore [])"
    by (simp add: sample_defs)
  from flow lookup unknown listing
  have "Notify memClient sampleDeps ?cfg sampleParam (startWorld (sampleStore [])) =
      embedAndPost memClient sampleDeps
        (?cfg\<lparr>PR := (PR ?cfg)\<lparr>Revision :=
            fst (lastOne sampleDeps [''def456'', ''abc123''] (Revision (PR ?cfg)))\<rparr>\<rparr>)
        sampleParam False (ParamExitCode sampleParam) ''## Result: Apply complete!''
        \<lparr>remote = sampleStore [],
         calls = calls (startWorld (sampleStore [])) @
           [MergedPRNumberCall (Revision (PR ?cfg)), CommitsListCall (Revision (PR ?cfg))]\<rparr>"
    by blast
  then show ?thesis
    using kind unknown
    by (simp add: embedAndPost_def getEmbeddedComment_def getVar_def call_defs sample_defs)
qed

subsection \<open>The label decision table\<close>

text \<open>
  Claim C5. The label and color are chosen in the order AddOrUpdate, Destroy,
  NoChanges, PlanError, the first flag set winning: with \<open>HasAddOrUpdateOnly\<close> set
  the AddOrUpdate label and color are chosen whatever \<open>HasDestroy\<close> is; with none of
  the four flags set the label is empty, that is, no label is selected.
\<close>

theorem selectLabel_priority:
  "(HasAddOrUpdateOnly r \<longrightarrow>
      selectLabel rl r = (AddOrUpdateLabel rl, AddOrUpdateLabelColor rl)) \<and>
   (\<not> HasAddOrUpdateOnly r \<and> HasDestroy r \<longrightarrow>
      selectLabel rl r = (DestroyLabel rl, DestroyLabelColor rl)) \<and>
   (\<not> HasAddOrUpdateOnly r \<and> \<not> HasDestroy r \<and> HasNoChanges r \<longrightarrow>
      selectLabel rl r = (NoChangesLabel rl, NoChangesLabelColor rl)) \<and>
   (\<not> HasAddOrUpdateOnly r \<and> \<not> HasDestroy r \<and> \<not> HasNoChanges r \<and> HasPlanError r \<longrightarrow>
      selectLabel rl r = (PlanErrorLabel rl, PlanErrorLabelColor rl)) \<and>
   (\<not> HasAddOrUpdateOnly r \<and> \<not> HasDestroy r \<and> \<not> HasNoChanges r \<and> \<not> HasPlanError r \<longrightarrow>
      selectLabel rl r = ('''', ''''))"
  by (simp add: selectLabel_def)

text \<open>
  With \<open>HasAddOrUpdateOnly\<close> and \<open>HasDestroy\<close> both set, the reconciler adds the
  AddOrUpdate label and removes an attached Destroy label as stale.
\<close>

theorem selectLabel_priority_witness:
  "HasAddOrUpdateOnly (emptyResult\<lparr>HasAddOrUpdateOnly := True, HasDestroy := True\<rparr>) \<and>
   HasDestroy (emptyResult\<lparr>HasAddOrUpdateOnly := True, HasDestroy := True\<rparr>) \<and>
   selectLabel sampleLabels (emptyResult\<lparr>HasAddOrUpdateOnly := True, HasDestroy := True\<rparr>)
     = (''add-or-update'', ''1d76db'') \<and>
   selectLabel sampleLabels emptyResult = ('''', '''') \<and>
   updateLabels memClient sampleDeps
     (sampleConfig PlanParser emptyResult 7)
     (emptyResult\<lparr>HasAddOrUpdateOnly := True, HasDestroy := True\<rparr>)
     (startWorld (sampleStore [''destroy''])) =
   (Returned [],
    \<lparr>remote = (sampleStore [])\<lparr>attached := [''add-or-update''],
        colorOf := (\<lambda>n. '''')(''add-or-update'' := ''1d76db'')\<rparr>,
     calls = [ListLabelsCall 7, RemoveLabelCall 7 ''destroy'',
              AddLabelsCall 7 [''add-or-update''],
              UpdateLabelCall ''add-or-update'' ''1d76db'']\<rparr>)"
  using selectLabel_priority [of "emptyResult\<lparr>HasAddOrUpdateOnly := True, HasDestroy := True\<rparr>"
          sampleLabels]
        selectLabel_priority [of emptyResult sampleLabels]
  by (simp add: notify_defs call_defs sample_defs)

section \<open>Properties of the label reconciliation\<close>

subsection \<open>What the loops do to the log\<close>

lemma removeLoop_skip:
  assumes "\<forall>x\<in>set pre. Name x = label \<or> \<not> IsResultLabel d (ResultLabels cfg) (Name x)"
  shows "removeLoop cl d cfg label (pre @ rest) c w =
         removeLoop cl d cfg label rest (seenColor label pre c) w"
  using assms by (induction pre arbitrary: c) (auto simp: seenColor_def)


lemma colorLoop_calls:
  assumes "colorLoop cl t lc ls msgs w = (msgs', w')"
  shows "\<exists>k more. calls w' = calls w @ replicate k (UpdateLabelCall t lc) \<and> msgs' = msgs @ more"
  using assms
proof (induction ls arbitrary: msgs w)
  case Nil
  then have "calls w' = calls w @ replicate 0 (UpdateLabelCall t lc) \<and> msgs' = msgs @ []"
    by simp
  then show ?case by blast
next
  case (Cons l ls)
  show ?case
  proof (cases "t = Name l \<and> Color l \<noteq> lc")
    case False
    with Cons.prems have "colorLoop cl t lc ls msgs w = (msgs', w')" by auto
    from Cons.IH [OF this] show ?thesis .
  next
    case True
    obtain err s where A: "IssuesUpdateLabel cl t lc (remote w) = (err, s)"
      by (metis surj_pair)
    define w1 where "w1 = \<lparr>remote = s, calls = calls w @ [UpdateLabelCall t lc]\<rparr>"
    have C: "callUpdateLabel cl t lc w = (err, w1)"
      by (simp add: callUpdateLabel_def A w1_def)
    from Cons.prems True C obtain msgs1 where
      L: "colorLoop cl t lc ls msgs1 w1 = (msgs', w')" and M: "\<exists>m. msgs1 = msgs @ m"
      by (cases err) auto
    from Cons.IH [OF L] obtain k more where
      K: "calls w' = calls w1 @ replicate k (UpdateLabelCall t lc)" "msgs' = msgs1 @ more"
      by blast
    from M obtain m where "msgs1 = msgs @ m" ..
    with K have "calls w' = calls w @ replicate (Suc k) (UpdateLabelCall t lc) \<and>
        msgs' = msgs @ (m @ more)"
      by (simp add: w1_def replicate_app_Cons_same)
    then show ?thesis by blast
  qed
qed

text \<open>
  What \<open>applyLabel\<close> issues: nothing without a target; an add followed by color
  updates when the current color is empty; otherwise at most one color update.
\<close>

lemma applyLabel_calls:
  assumes "applyLabel cl cfg t lc cur msgs w = (msgs', w')"
  shows "(\<exists>more. msgs' = msgs @ more) \<and>
         (t = '''' \<longrightarrow> w' = w) \<and>
         (t \<noteq> '''' \<and> cur = '''' \<longrightarrow>
            (\<exists>k. calls w' = calls w @ AddLabelsCall (Number (PR cfg)) [t]
                      # replicate k (UpdateLabelCall t lc))) \<and>
         (t \<noteq> '''' \<and> cur \<noteq> '''' \<longrightarrow>
            calls w' = calls w @
              (if lc \<noteq> '''' \<and> lc \<noteq> cur then [UpdateLabelCall t lc] else []))"
proof (cases "t = ''''")
  case True
  with assms show ?thesis by (simp add: applyLabel_def)
next
  case False
  note T = this
  show ?thesis
  proof (cases "cur = ''''")
    case False
    with T assms show ?thesis
      by (auto simp: applyLabel_def callUpdateLabel_def split: if_splits prod.splits option.splits)
  next
    case True
    obtain labels err s where A:
      "IssuesAddLabels cl (Number (PR cfg)) [t] (remote w) = ((labels, err), s)"
      by (metis surj_pair)
    define w1 where "w1 = \<lparr>remote = s, calls = calls w @ [AddLabelsCall (Number (PR cfg)) [t]]\<rparr>"
    have C: "callAddLabels cl (Number (PR cfg)) [t] w = ((labels, err), w1)"
      by (simp add: callAddLabels_def A w1_def)
    define msgs1 where "msgs1 = (case err of None \<Rightarrow> msgs | Some e \<Rightarrow> msgs @ [addMsg t e])"
    have M1: "\<exists>m. msgs1 = msgs @ m" by (cases err) (simp_all add: msgs1_def)
    show ?thesis
    proof (cases "lc = ''''")
      case True
      with T \<open>cur = ''''\<close> assms C have "msgs' = msgs1" "w' = w1"
        by (simp_all add: applyLabel_def msgs1_def Let_def)
      with M1 T \<open>cur = ''''\<close> have "(\<exists>more. msgs' = msgs @ more) \<and>
          calls w' = calls w @ AddLabelsCall (Number (PR cfg)) [t] # replicate 0 (UpdateLabelCall t lc)"
        by (simp add: w1_def)
      with T \<open>cur = ''''\<close> show ?thesis by blast
    next
      case False
      with T \<open>cur = ''''\<close> assms C have "colorLoop cl t lc labels msgs1 w1 = (msgs', w')"
        by (simp add: applyLabel_def msgs1_def Let_def)
      from colorLoop_calls [OF this] obtain k more where
        "calls w' = calls w1 @ replicate k (UpdateLabelCall t lc)" "msgs' = msgs1 @ more"
        by blast
      with M1 have "(\<exists>more. msgs' = msgs @ more) \<and>
          calls w' = calls w @ AddLabelsCall (Number (PR cfg)) [t] # replicate k (UpdateLabelCall t lc)"
        by (auto simp: w1_def)
      with T \<open>cur = ''''\<close> show ?thesis by blast
    qed
  qed
qed

subsection \<open>Removal answered with not-found\<close>

lemma removeLoop_ignoring404:
  "removeLoop (ignoring404 cl) d cfg label ls c w = removeLoop cl d cfg label ls c w"
proof (induction ls arbitrary: c w)
  case Nil
  show ?case by simp
next
  case (Cons l ls)
  obtain resp err s where A:
    "IssuesRemoveLabel cl (Number (PR cfg)) (Name l) (remote w) = ((resp, err), s)"
    by (metis surj_pair)
  show ?case
    using A Cons.IH
    by (cases resp; cases err) (simp_all add: callRemoveLabel_def ignoring404_def)
qed

lemma updateLabels_ignoring404:
  "updateLabels (ignoring404 cl) d cfg result w = updateLabels cl d cfg result w"
proof -
  have L: "callListLabels (ignoring404 cl) = callListLabels cl"
    by (intro ext) (simp add: callListLabels_def ignoring404_def)
  have A: "callAddLabels (ignoring404 cl) = callAddLabels cl"
    by (intro ext) (simp add: callAddLabels_def ignoring404_def)
  have U: "callUpdateLabel (ignoring404 cl) = callUpdateLabel cl"
    by (intro ext) (simp add: callUpdateLabel_def ignoring404_def)
  have "colorLoop (ignoring404 cl) t lc ls msgs w' = colorLoop cl t lc ls msgs w'"
    for t lc ls msgs w'
    by (induction ls arbitrary: msgs w') (auto simp: U split: prod.splits option.splits)
  then have CL: "colorLoop (ignoring404 cl) = colorLoop cl"
    by (intro ext)
  have RL: "removeLoop (ignoring404 cl) = removeLoop cl"
    by (intro ext) (rule removeLoop_ignoring404)
  show ?thesis
    unfolding updateLabels_def removeResultLabels_def applyLabel_def L A U CL RL ..
qed

text \<open>
  Claim C8. A removal answered with an error and status 404 is treated as a success:
  the reconciliation runs exactly as against a client that answers that removal
  without error, so it does not stop and records no message for it; in the loop, the
  labels after the one whose removal was answered 404 are processed next, with the
  color found so far.
\<close>

theorem updateLabels_not_found_ignored:
  "updateLabels (ignoring404 cl) d cfg result w = updateLabels cl d cfg result w \<and>
   (Name l \<noteq> label \<and> IsResultLabel d (ResultLabels cfg) (Name l) \<and>
    IssuesRemoveLabel cl (Number (PR cfg)) (Name l) (remote w) = ((Some r, Some e), s) \<and>
    StatusCode r = 404 \<longrightarrow>
      removeLoop cl d cfg label (l # rest) c w =
      removeLoop cl d cfg label rest c
        \<lparr>remote = s, calls = calls w @ [RemoveLabelCall (Number (PR cfg)) (Name l)]\<rparr>)"
  by (simp add: updateLabels_ignoring404 callRemoveLabel_def)

text \<open>
  Two stale labels, both removals answered 404: both are attempted, the target label
  is added and the message list is empty.
\<close>

theorem updateLabels_not_found_ignored_witness:
  "updateLabels (ignoring404 (failingRemoval 404 ''404 Not Found'')) sampleDeps
     (sampleConfig PlanParser emptyResult 7) (emptyResult\<lparr>HasNoChanges := True\<rparr>)
     (startWorld (sampleStore [''destroy'', ''plan-error''])) =
   (Returned [],
    \<lparr>remote = sampleStore [''destroy'', ''plan-error'', ''no-changes''],
     calls = [ListLabelsCall 7, RemoveLabelCall 7 ''destroy'', RemoveLabelCall 7 ''plan-error'',
              AddLabelsCall 7 [''no-changes'']]\<rparr>)"
proof -
  have "updateLabels (failingRemoval 404 ''404 Not Found'') sampleDeps
     (sampleConfig PlanParser emptyResult 7) (emptyResult\<lparr>HasNoChanges := True\<rparr>)
     (startWorld (sampleStore [''destroy'', ''plan-error''])) =
   (Returned [],
    \<lparr>remote = sampleStore [''destroy'', ''plan-error'', ''no-changes''],
     calls = [ListLabelsCall 7, RemoveLabelCall 7 ''destroy'', RemoveLabelCall 7 ''plan-error'',
              AddLabelsCall 7 [''no-changes'']]\<rparr>)"
    by (simp add: notify_defs call_defs sample_defs)
  then show ?thesis
    using updateLabels_not_found_ignored [of "failingRemoval 404 ''404 Not Found''" sampleDeps
      "sampleConfig PlanParser emptyResult 7" "emptyResult\<lparr>HasNoChanges := True\<rparr>"
      "startWorld (sampleStore [''destroy'', ''plan-error''])"]
    by simp
qed

subsection \<open>Removal answered with another failure\<close>

text \<open>
  A stretch of the listing that the loop passes without a failing removal can be split
  off: the loop goes on behind it with the color and the world it reached.
\<close>

lemma removeLoop_append:
  assumes "removeLoop cl d cfg label pre c w = (Returned (c1, None), w1)"
  shows "removeLoop cl d cfg label (pre @ rest) c w = removeLoop cl d cfg label rest c1 w1"
  using assms
proof (induction pre arbitrary: c w)
  case Nil
  then show ?case by simp
next
  case (Cons p pre)
  show ?case
  proof (cases "Name p \<noteq> label \<and> IsResultLabel d (ResultLabels cfg) (Name p)")
    case False
    with Cons.prems have "removeLoop cl d cfg label pre (if Name p = label then Color p else c) w
        = (Returned (c1, None), w1)"
      by (auto split: if_splits)
    from Cons.IH [OF this] False show ?thesis by auto
  next
    case True
    obtain resp err w' where C:
      "callRemoveLabel cl (Number (PR cfg)) (Name p) w = ((resp, err), w')"
      by (metis surj_pair)
    from Cons.prems True C have "removeLoop cl d cfg label pre c w' = (Returned (c1, None), w1)"
      by (cases resp; cases err) (auto split: if_splits)
    from Cons.IH [OF this] have
      "removeLoop cl d cfg label (pre @ rest) c w' = removeLoop cl d cfg label rest c1 w1" .
    moreover from Cons.prems True C have
      "removeLoop cl d cfg label ((p # pre) @ rest) c w = removeLoop cl d cfg label (pre @ rest) c w'"
      by (cases resp; cases err) (auto split: if_splits)
    ultimately show ?thesis by simp
  qed
qed

text \<open>
  Claim C7, amended. When the removal of a stale result label fails with a response
  whose status is not 404, after the labels listed before it were passed without such
  a failure, the loop over the listed labels stops at that label: the labels listed
  after it are not attempted in this run. The failure is recorded as the single
  message \<open>remove labels: <error>\<close>, and the add and color-update steps for the target
  label still run, with the target color seen before the failing label; they issue no
  removal.
\<close>

theorem updateLabels_removal_failure:
  assumes sel: "selectLabel (ResultLabels cfg) result = (labelToAdd, labelColor)"
      and listing: "IssuesListLabels cl (Number (PR cfg)) (remote w) = (Inr (pre @ l # rest), s)"
      and before: "removeLoop cl d cfg labelToAdd pre ''''
                     \<lparr>remote = s, calls = calls w @ [ListLabelsCall (Number (PR cfg))]\<rparr>
                   = (Returned (seen, None), w1)"
      and stale: "Name l \<noteq> labelToAdd \<and> IsResultLabel d (ResultLabels cfg) (Name l)"
      and failure: "IssuesRemoveLabel cl (Number (PR cfg)) (Name l) (remote w1)
                      = ((Some r, Some e), s')"
      and status: "StatusCode r \<noteq> 404"
  shows "updateLabels cl d cfg result w =
           (case applyLabel cl cfg labelToAdd labelColor seen [removeMsg e]
                   \<lparr>remote = s',
                    calls = calls w1 @ [RemoveLabelCall (Number (PR cfg)) (Name l)]\<rparr> of
              (errMsgs, w') \<Rightarrow> (Returned errMsgs, w'))
         \<and> (\<exists>more issued.
               fst (updateLabels cl d cfg result w) = Returned (removeMsg e # more) \<and>
               calls (snd (updateLabels cl d cfg result w)) =
                 calls w1 @ RemoveLabelCall (Number (PR cfg)) (Name l) # issued \<and>
               (\<forall>c\<in>set issued. \<not> isRemoval c))"
proof -
  define w0 where "w0 = \<lparr>remote = s, calls = calls w @ [ListLabelsCall (Number (PR cfg))]\<rparr>"
  define w2 where "w2 = \<lparr>remote = s',
      calls = calls w1 @ [RemoveLabelCall (Number (PR cfg)) (Name l)]\<rparr>"
  have "removeLoop cl d cfg labelToAdd (pre @ l # rest) '''' w0 =
      removeLoop cl d cfg labelToAdd (l # rest) seen w1"
    using before unfolding w0_def by (rule removeLoop_append)
  also have "\<dots> = (Returned (seen, Some e), w2)"
    using stale failure status by (simp add: callRemoveLabel_def w2_def)
  finally have R: "removeResultLabels cl d cfg labelToAdd w = (Returned (seen, Some e), w2)"
    using listing by (simp add: removeResultLabels_def callListLabels_def w0_def)
  obtain errMsgs w' where A:
    "applyLabel cl cfg labelToAdd labelColor seen [removeMsg e] w2 = (errMsgs, w')"
    by (metis surj_pair)
  have U: "updateLabels cl d cfg result w = (Returned errMsgs, w')"
    using sel R A by (simp add: updateLabels_def)
  from applyLabel_calls [OF A] obtain more where M: "errMsgs = [removeMsg e] @ more"
    by blast
  have "\<exists>issued. calls w' = calls w2 @ issued \<and> (\<forall>c\<in>set issued. \<not> isRemoval c)"
  proof (cases "labelToAdd = ''''")
    case True
    with applyLabel_calls [OF A] have "calls w' = calls w2 @ []" by simp
    then show ?thesis by (metis empty_iff list.set(1))
  next
    case False
    note T = this
    show ?thesis
    proof (cases "seen = ''''")
      case True
      with T applyLabel_calls [OF A] obtain k where
        "calls w' = calls w2 @ AddLabelsCall (Number (PR cfg)) [labelToAdd]
            # replicate k (UpdateLabelCall labelToAdd labelColor)"
        by blast
      moreover have "\<forall>c\<in>set (AddLabelsCall (Number (PR cfg)) [labelToAdd]
            # replicate k (UpdateLabelCall labelToAdd labelColor)). \<not> isRemoval c"
        by auto
      ultimately show ?thesis by blast
    next
      case False
      with T applyLabel_calls [OF A] have
        "calls w' = calls w2 @ (if labelColor \<noteq> '''' \<and> labelColor \<noteq> seen
            then [UpdateLabelCall labelToAdd labelColor] else [])"
        by blast
      moreover have "\<forall>c\<in>set (if labelColor \<noteq> '''' \<and> labelColor \<noteq> seen
            then [UpdateLabelCall labelToAdd labelColor] else []). \<not> isRemoval c"
        by auto
      ultimately show ?thesis by blast
    qed
  qed
  then obtain issued where I: "calls w' = calls w2 @ issued" "\<forall>c\<in>set issued. \<not> isRemoval c"
    by blast
  have "fst (updateLabels cl d cfg result w) = Returned (removeMsg e # more) \<and>
        calls (snd (updateLabels cl d cfg result w)) =
          calls w1 @ RemoveLabelCall (Number (PR cfg)) (Name l) # issued \<and>
        (\<forall>c\<in>set issued. \<not> isRemoval c)"
    using U M I by (simp add: w2_def)
  then have "\<exists>more issued.
        fst (updateLabels cl d cfg result w) = Returned (removeMsg e # more) \<and>
        calls (snd (updateLabels cl d cfg result w)) =
          calls w1 @ RemoveLabelCall (Number (PR cfg)) (Name l) # issued \<and>
        (\<forall>c\<in>set issued. \<not> isRemoval c)"
    by blast
  moreover have "updateLabels cl d cfg result w =
           (case applyLabel cl cfg labelToAdd labelColor seen [removeMsg e] w2 of
              (errMsgs, w') \<Rightarrow> (Returned errMsgs, w'))"
    using U A by simp
  ultimately show ?thesis unfolding w2_def by blast
qed

text \<open>
  Two stale labels are listed behind an unrelated one, and the removal endpoint
  answers 500. Only the first removal is attempted; the message is recorded and the
  target label is added.
\<close>

theorem updateLabels_removal_failure_witness:
  "updateLabels (failingRemoval 500 ''500 Internal Server Error'') sampleDeps
     (sampleConfig PlanParser emptyResult 7) (emptyResult\<lparr>HasNoChanges := True\<rparr>)
     (startWorld (sampleStore [''unrelated'', ''destroy'', ''plan-error''])) =
   (Returned [''remove labels: 500 Internal Server Error''],
    \<lparr>remote = sampleStore [''unrelated'', ''destroy'', ''plan-error'', ''no-changes''],
     calls = [ListLabelsCall 7, RemoveLabelCall 7 ''destroy'',
              AddLabelsCall 7 [''no-changes'']]\<rparr>)"
proof -
  let ?cl = "failingRemoval 500 ''500 Internal Server Error''"
  let ?cfg = "sampleConfig PlanParser emptyResult 7"
  let ?res = "emptyResult\<lparr>HasNoChanges := True\<rparr>"
  let ?u = "\<lparr>Name = ''unrelated'', Color = ''''\<rparr>"
  let ?l = "\<lparr>Name = ''destroy'', Color = ''''\<rparr>"
  let ?s = "sampleStore [''unrelated'', ''destroy'', ''plan-error'']"
  let ?w = "startWorld ?s"
  let ?w1 = "\<lparr>remote = ?s, calls = calls ?w @ [ListLabelsCall (Number (PR ?cfg))]\<rparr>"
  have sel: "selectLabel (ResultLabels ?cfg) ?res = (''no-changes'', '''')"
    by (simp add: selectLabel_def sample_defs)
  have listing: "IssuesListLabels ?cl (Number (PR ?cfg)) (remote ?w) =
      (Inr ([?u] @ ?l # [\<lparr>Name = ''plan-error'', Color = ''''\<rparr>]), ?s)"
    by (simp add: sample_defs)
  have before: "removeLoop ?cl sampleDeps ?cfg ''no-changes'' [?u] '''' ?w1 =
      (Returned ('''', None), ?w1)"
    by (simp add: sample_defs)
  have stale: "Name ?l \<noteq> ''no-changes'' \<and> IsResultLabel sampleDeps (ResultLabels ?cfg) (Name ?l)"
    by (simp add: sample_defs)
  have failure: "IssuesRemoveLabel ?cl (Number (PR ?cfg)) (Name ?l) (remote ?w1) =
      ((Some \<lparr>StatusCode = 500\<rparr>, Some ''500 Internal Server Error''), ?s)"
    by (simp add: sample_defs)
  have status: "StatusCode \<lparr>StatusCode = 500\<rparr> \<noteq> 404" by simp
  from updateLabels_removal_failure [OF sel listing before stale failure status]
  show ?thesis
    by (simp add: applyLabel_def removeMsg_def call_defs sample_defs)
qed

text \<open>
  The claim as stated fails: \<open>plan-error\<close> is a stale result label listed after the
  failing one, and no removal of it is attempted.
\<close>

theorem updateLabels_removal_failure_counterexample:
  "IsResultLabel sampleDeps sampleLabels ''plan-error'' \<and>
   RemoveLabelCall 7 ''plan-error'' \<notin> set (calls (snd
     (updateLabels (failingRemoval 500 ''500 Internal Server Error'') sampleDeps
        (sampleConfig PlanParser emptyResult 7) (emptyResult\<lparr>HasNoChanges := True\<rparr>)
        (startWorld (sampleStore [''destroy'', ''plan-error'']))))) \<and>
   updateLabels (failingRemoval 500 ''500 Internal Server Error'') sampleDeps
        (sampleConfig PlanParser emptyResult 7) (emptyResult\<lparr>HasNoChanges := True\<rparr>)
        (startWorld (sampleStore [''destroy'', ''plan-error''])) =
   (Returned [''remove labels: 500 Internal Server Error''],
    \<lparr>remote = sampleStore [''destroy'', ''plan-error'', ''no-changes''],
     calls = [ListLabelsCall 7, RemoveLabelCall 7 ''destroy'',
              AddLabelsCall 7 [''no-changes'']]\<rparr>)"
  by (simp add: notify_defs call_defs sample_defs removeMsg_def)

subsection \<open>Presence of the target label is read off its color\<close>

lemma seenColor_Cons:
  "seenColor t (l # ls) c = seenColor t ls (if Name l = t then Color l else c)"
  by (simp add: seenColor_def)





subsection \<open>Idempotence against a label store\<close>

lemma seenColor_map:
  "seenColor t (map (\<lambda>n. \<lparr>Name = n, Color = col n\<rparr>) xs) c = (if t \<in> set xs then col t else c)"
  unfolding seenColor_def by (induction xs arbitrary: c) auto

lemma seenColor_store:
  "seenColor t (storeLabels s) c = (if t \<in> set (attached s) then colorOf s t else c)"
  unfolding storeLabels_def by (rule seenColor_map)

text \<open>The four laws of \<open>behavesAsStore\<close>, for the logged calls.\<close>

lemma store_list:
  assumes "behavesAsStore cl view"
  shows "\<exists>w'. callListLabels cl n w = (Inr (storeLabels (view (remote w))), w') \<and>
           calls w' = calls w @ [ListLabelsCall n] \<and>
           attached (view (remote w')) = attached (view (remote w)) \<and>
           colorOf (view (remote w')) = colorOf (view (remote w))"
proof -
  from assms have "\<exists>s'. IssuesListLabels cl n (remote w) = (Inr (storeLabels (view (remote w))), s') \<and>
        attached (view s') = attached (view (remote w)) \<and>
        colorOf (view s') = colorOf (view (remote w))"
    by (simp add: behavesAsStore_def)
  then obtain s' where "IssuesListLabels cl n (remote w) = (Inr (storeLabels (view (remote w))), s')"
    "attached (view s') = attached (view (remote w))" "colorOf (view s') = colorOf (view (remote w))"
    by (elim exE conjE) (rule that)
  then show ?thesis by (simp add: callListLabels_def)
qed

lemma store_remove:
  assumes "behavesAsStore cl view"
  shows "\<exists>resp err w'. callRemoveLabel cl n x w = ((resp, err), w') \<and>
           (err = None \<or> (\<exists>r. resp = Some r \<and> StatusCode r = 404)) \<and>
           colorOf (view (remote w')) = colorOf (view (remote w)) \<and>
           attached (view (remote w')) = removeAll x (attached (view (remote w)))"
proof -
  from assms have "\<exists>resp err s'. IssuesRemoveLabel cl n x (remote w) = ((resp, err), s') \<and>
        (err = None \<or> (\<exists>r. resp = Some r \<and> StatusCode r = 404)) \<and>
        attached (view s') = removeAll x (attached (view (remote w))) \<and>
        colorOf (view s') = colorOf (view (remote w))"
    by (simp add: behavesAsStore_def)
  then obtain resp err s' where "IssuesRemoveLabel cl n x (remote w) = ((resp, err), s')"
    "err = None \<or> (\<exists>r. resp = Some r \<and> StatusCode r = 404)"
    "attached (view s') = removeAll x (attached (view (remote w)))"
    "colorOf (view s') = colorOf (view (remote w))"
    by (elim exE conjE) (rule that)
  then show ?thesis by (simp add: callRemoveLabel_def)
qed

lemma store_add:
  assumes "behavesAsStore cl view"
  shows "\<exists>w'. callAddLabels cl n [t] w = ((storeLabels (view (remote w')), None), w') \<and>
           colorOf (view (remote w')) = colorOf (view (remote w)) \<and>
           set (attached (view (remote w'))) = insert t (set (attached (view (remote w))))"
proof -
  from assms have "\<exists>s'. IssuesAddLabels cl n [t] (remote w) = ((storeLabels (view s'), None), s') \<and>
        attached (view s') =
          attached (view (remote w)) @ filter (\<lambda>x. x \<notin> set (attached (view (remote w)))) [t] \<and>
        colorOf (view s') = colorOf (view (remote w))"
    by (simp add: behavesAsStore_def)
  then obtain s' where "IssuesAddLabels cl n [t] (remote w) = ((storeLabels (view s'), None), s')"
    "attached (view s') =
       attached (view (remote w)) @ filter (\<lambda>x. x \<notin> set (attached (view (remote w)))) [t]"
    "colorOf (view s') = colorOf (view (remote w))"
    by (elim exE conjE) (rule that)
  then show ?thesis by (auto simp: callAddLabels_def)
qed

lemma store_update:
  assumes "behavesAsStore cl view"
  shows "\<exists>w'. callUpdateLabel cl t c w = (None, w') \<and>
           attached (view (remote w')) = attached (view (remote w)) \<and>
           colorOf (view (remote w')) = (colorOf (view (remote w)))(t := c)"
proof -
  from assms have "\<exists>s'. IssuesUpdateLabel cl t c (remote w) = (None, s') \<and>
        attached (view s') = attached (view (remote w)) \<and>
        colorOf (view s') = (colorOf (view (remote w)))(t := c)"
    by (simp add: behavesAsStore_def)
  then obtain s' where "IssuesUpdateLabel cl t c (remote w) = (None, s')"
    "attached (view s') = attached (view (remote w))"
    "colorOf (view s') = (colorOf (view (remote w)))(t := c)"
    by (elim exE conjE) (rule that)
  then show ?thesis by (simp add: callUpdateLabel_def)
qed

text \<open>
  Against a store the removal loop passes the whole listing without error and detaches
  the stale labels it lists.
\<close>

lemma store_removeLoop:
  assumes B: "behavesAsStore cl view"
  shows "\<exists>w'. removeLoop cl d cfg t ls c w = (Returned (seenColor t ls c, None), w') \<and>
        colorOf (view (remote w')) = colorOf (view (remote w)) \<and>
        set (attached (view (remote w'))) = set (attached (view (remote w))) -
          {x. x \<noteq> t \<and> IsResultLabel d (ResultLabels cfg) x \<and> x \<in> Name ` set ls}"
proof (induction ls arbitrary: c w)
  case Nil
  show ?case by (simp add: seenColor_def)
next
  case (Cons l ls)
  show ?case
  proof (cases "Name l \<noteq> t \<and> IsResultLabel d (ResultLabels cfg) (Name l)")
    case False
    from Cons.IH [of "if Name l = t then Color l else c" w] obtain w' where
      "removeLoop cl d cfg t ls (if Name l = t then Color l else c) w =
         (Returned (seenColor t ls (if Name l = t then Color l else c), None), w')"
      "colorOf (view (remote w')) = colorOf (view (remote w))"
      "set (attached (view (remote w'))) = set (attached (view (remote w))) -
          {x. x \<noteq> t \<and> IsResultLabel d (ResultLabels cfg) x \<and> x \<in> Name ` set ls}"
      by (elim exE conjE) (rule that)
    with False have
      "removeLoop cl d cfg t (l # ls) c w = (Returned (seenColor t (l # ls) c, None), w') \<and>
        colorOf (view (remote w')) = colorOf (view (remote w)) \<and>
        set (attached (view (remote w'))) = set (attached (view (remote w))) -
          {x. x \<noteq> t \<and> IsResultLabel d (ResultLabels cfg) x \<and> x \<in> Name ` set (l # ls)}"
      by (auto simp: seenColor_Cons)
    then show ?thesis by (rule exI)
  next
    case True
    from store_remove [OF B, of "Number (PR cfg)" "Name l" w] obtain resp err w1 where
      C: "callRemoveLabel cl (Number (PR cfg)) (Name l) w = ((resp, err), w1)"
      and ok: "err = None \<or> (\<exists>r. resp = Some r \<and> StatusCode r = 404)"
      and col1: "colorOf (view (remote w1)) = colorOf (view (remote w))"
      and att1: "attached (view (remote w1)) = removeAll (Name l) (attached (view (remote w)))"
      by (elim exE conjE) (rule that)
    have step: "removeLoop cl d cfg t (l # ls) c w = removeLoop cl d cfg t ls c w1"
    proof (cases err)
      case None
      with True C show ?thesis by (cases resp) simp_all
    next
      case (Some e)
      with ok obtain r where "resp = Some r" "StatusCode r = 404" by auto
      with True C Some show ?thesis by simp
    qed
    have att1': "set (attached (view (remote w1))) = set (attached (view (remote w))) - {Name l}"
      using att1 by auto
    from Cons.IH [of c w1] obtain w' where
      "removeLoop cl d cfg t ls c w1 = (Returned (seenColor t ls c, None), w')"
      "colorOf (view (remote w')) = colorOf (view (remote w1))"
      "set (attached (view (remote w'))) = set (attached (view (remote w1))) -
          {x. x \<noteq> t \<and> IsResultLabel d (ResultLabels cfg) x \<and> x \<in> Name ` set ls}"
      by (elim exE conjE) (rule that)
    with True step col1 att1' have
      "removeLoop cl d cfg t (l # ls) c w = (Returned (seenColor t (l # ls) c, None), w') \<and>
        colorOf (view (remote w')) = colorOf (view (remote w)) \<and>
        set (attached (view (remote w'))) = set (attached (view (remote w))) -
          {x. x \<noteq> t \<and> IsResultLabel d (ResultLabels cfg) x \<and> x \<in> Name ` set (l # ls)}"
      by (auto simp: seenColor_Cons)
    then show ?thesis by (rule exI)
  qed
qed

text \<open>
  Against a store the color loop records no message, attaches nothing, and leaves the
  target with the configured color if one of the labels it is given needs the update.
\<close>

lemma store_colorLoop:
  assumes B: "behavesAsStore cl view"
  shows "\<exists>w'. colorLoop cl t lc ls msgs w = (msgs, w') \<and>
        attached (view (remote w')) = attached (view (remote w)) \<and>
        (if \<exists>l\<in>set ls. Name l = t \<and> Color l \<noteq> lc then colorOf (view (remote w')) t = lc
         else colorOf (view (remote w')) = colorOf (view (remote w)))"
proof (induction ls arbitrary: w)
  case Nil
  show ?case by simp
next
  case (Cons l ls)
  show ?case
  proof (cases "t = Name l \<and> Color l \<noteq> lc")
    case False
    from Cons.IH [of w] obtain w' where
      "colorLoop cl t lc ls msgs w = (msgs, w')"
      "attached (view (remote w')) = attached (view (remote w))"
      "if \<exists>l\<in>set ls. Name l = t \<and> Color l \<noteq> lc then colorOf (view (remote w')) t = lc
         else colorOf (view (remote w')) = colorOf (view (remote w))"
      by (elim exE conjE) (rule that)
    with False have "colorLoop cl t lc (l # ls) msgs w = (msgs, w') \<and>
        attached (view (remote w')) = attached (view (remote w)) \<and>
        (if \<exists>l\<in>set (l # ls). Name l = t \<and> Color l \<noteq> lc then colorOf (view (remote w')) t = lc
         else colorOf (view (remote w')) = colorOf (view (remote w)))"
      by auto
    then show ?thesis by (rule exI)
  next
    case True
    from store_update [OF B, of t lc w] obtain w1 where
      C: "callUpdateLabel cl t lc w = (None, w1)"
      and att1: "attached (view (remote w1)) = attached (view (remote w))"
      and col: "colorOf (view (remote w1)) = (colorOf (view (remote w)))(t := lc)"
      by (elim exE conjE) (rule that)
    have step: "colorLoop cl t lc (l # ls) msgs w = colorLoop cl t lc ls msgs w1"
      using True C by simp
    have col1: "colorOf (view (remote w1)) t = lc"
      using col by simp
    from Cons.IH [of w1] obtain w' where
      "colorLoop cl t lc ls msgs w1 = (msgs, w')"
      "attached (view (remote w')) = attached (view (remote w1))"
      "if \<exists>l\<in>set ls. Name l = t \<and> Color l \<noteq> lc then colorOf (view (remote w')) t = lc
         else colorOf (view (remote w')) = colorOf (view (remote w1))"
      by (elim exE conjE) (rule that)
    with True step att1 col1 have "colorLoop cl t lc (l # ls) msgs w = (msgs, w') \<and>
        attached (view (remote w')) = attached (view (remote w)) \<and>
        (if \<exists>l\<in>set (l # ls). Name l = t \<and> Color l \<noteq> lc then colorOf (view (remote w')) t = lc
         else colorOf (view (remote w')) = colorOf (view (remote w)))"
      by (auto split: if_splits)
    then show ?thesis by (rule exI)
  qed
qed

text \<open>In a reconciled store a run only lists the labels.\<close>

lemma updateLabels_reconciled:
  assumes B: "behavesAsStore cl view"
      and sel: "selectLabel (ResultLabels cfg) result = (t, lc)"
      and rec: "reconciled d cfg t lc (view (remote w))"
  shows "\<exists>w'. updateLabels cl d cfg result w = (Returned [], w') \<and>
           calls w' = calls w @ [ListLabelsCall (Number (PR cfg))] \<and>
           attached (view (remote w')) = attached (view (remote w)) \<and>
           colorOf (view (remote w')) = colorOf (view (remote w))"
proof -
  from store_list [OF B, of "Number (PR cfg)" w] obtain w0 where
    L: "callListLabels cl (Number (PR cfg)) w = (Inr (storeLabels (view (remote w))), w0)"
    and c0: "calls w0 = calls w @ [ListLabelsCall (Number (PR cfg))]"
    and a0: "attached (view (remote w0)) = attached (view (remote w))"
    and k0: "colorOf (view (remote w0)) = colorOf (view (remote w))"
    by (elim exE conjE) (rule that)
  define cur where "cur = (if t \<in> set (attached (view (remote w)))
      then colorOf (view (remote w)) t else '''')"
  have "\<forall>x\<in>set (storeLabels (view (remote w))).
      Name x = t \<or> \<not> IsResultLabel d (ResultLabels cfg) (Name x)"
    using rec by (auto simp: reconciled_def storeLabels_def)
  from removeLoop_skip [OF this, of cl "[]" "''''" w0]
  have "removeLoop cl d cfg t (storeLabels (view (remote w))) '''' w0 = (Returned (cur, None), w0)"
    by (simp add: seenColor_store cur_def)
  with L have R: "removeResultLabels cl d cfg t w = (Returned (cur, None), w0)"
    by (simp add: removeResultLabels_def)
  have A: "applyLabel cl cfg t lc cur [] w0 = ([], w0)"
    using rec by (auto simp: applyLabel_def reconciled_def cur_def)
  have "updateLabels cl d cfg result w = (Returned [], w0)"
    using sel R A by (simp add: updateLabels_def)
  with c0 a0 k0 have "updateLabels cl d cfg result w = (Returned [], w0) \<and>
           calls w0 = calls w @ [ListLabelsCall (Number (PR cfg))] \<and>
           attached (view (remote w0)) = attached (view (remote w)) \<and>
           colorOf (view (remote w0)) = colorOf (view (remote w))"
    by simp
  then show ?thesis by (rule exI)
qed

text \<open>A run leaves the store reconciled, provided the target ends up with a color.\<close>

lemma updateLabels_reconciles:
  assumes B: "behavesAsStore cl view"
      and sel: "selectLabel (ResultLabels cfg) result = (t, lc)"
      and first: "updateLabels cl d cfg result w = (out, w1)"
      and colored: "t = '''' \<or> colorOf (view (remote w1)) t \<noteq> ''''"
  shows "reconciled d cfg t lc (view (remote w1))"
proof -
  from store_list [OF B, of "Number (PR cfg)" w] obtain w0 where
    L: "callListLabels cl (Number (PR cfg)) w = (Inr (storeLabels (view (remote w))), w0)"
    and a0: "attached (view (remote w0)) = attached (view (remote w))"
    and k0: "colorOf (view (remote w0)) = colorOf (view (remote w))"
    by (elim exE conjE) (rule that)
  define cur where "cur = (if t \<in> set (attached (view (remote w)))
      then colorOf (view (remote w)) t else '''')"
  have names: "Name ` set (storeLabels (view (remote w))) = set (attached (view (remote w)))"
    by (simp add: storeLabels_def image_image)
  have seen: "seenColor t (storeLabels (view (remote w))) '''' = cur"
    by (simp add: seenColor_store cur_def)
  from store_removeLoop [OF B, of d cfg t "storeLabels (view (remote w))" "''''" w0] obtain wr where
    "removeLoop cl d cfg t (storeLabels (view (remote w))) '''' w0 =
       (Returned (seenColor t (storeLabels (view (remote w))) '''', None), wr)"
    "colorOf (view (remote wr)) = colorOf (view (remote w0))"
    "set (attached (view (remote wr))) = set (attached (view (remote w0))) -
          {x. x \<noteq> t \<and> IsResultLabel d (ResultLabels cfg) x \<and>
              x \<in> Name ` set (storeLabels (view (remote w)))}"
    by (elim exE conjE) (rule that)
  then have
    RL: "removeLoop cl d cfg t (storeLabels (view (remote w))) '''' w0 = (Returned (cur, None), wr)"
    and colr: "colorOf (view (remote wr)) = colorOf (view (remote w))"
    and attr: "set (attached (view (remote wr))) = set (attached (view (remote w))) -
          {x. x \<noteq> t \<and> IsResultLabel d (ResultLabels cfg) x \<and>
              x \<in> set (attached (view (remote w)))}"
    unfolding names seen a0 k0 by simp_all
  have R: "removeResultLabels cl d cfg t w = (Returned (cur, None), wr)"
    using RL L by (simp add: removeResultLabels_def)
  obtain msgs where A: "applyLabel cl cfg t lc cur [] wr = (msgs, w1)"
    using first sel R by (auto simp: updateLabels_def split: prod.splits)
  have clean: "\<forall>x\<in>set (attached (view (remote wr))).
      x = t \<or> \<not> IsResultLabel d (ResultLabels cfg) x"
    using attr by auto
  show ?thesis
  proof (cases "t = ''''")
    case True
    with A have "w1 = wr" by (simp add: applyLabel_def)
    with clean True show ?thesis by (simp add: reconciled_def)
  next
    case False
    note T = this
    with colored have C1: "colorOf (view (remote w1)) t \<noteq> ''''" by simp
    show ?thesis
    proof (cases "cur = ''''")
      case True
      from store_add [OF B, of "Number (PR cfg)" t wr] obtain wa where
        AD: "callAddLabels cl (Number (PR cfg)) [t] wr = ((storeLabels (view (remote wa)), None), wa)"
        and cola: "colorOf (view (remote wa)) = colorOf (view (remote wr))"
        and atta: "set (attached (view (remote wa))) = insert t (set (attached (view (remote wr))))"
        by (elim exE conjE) (rule that)
      show ?thesis
      proof (cases "lc = ''''")
        case True
        with T \<open>cur = ''''\<close> A AD have "w1 = wa"
          by (simp add: applyLabel_def)
        with atta clean C1 True T show ?thesis by (auto simp: reconciled_def)
      next
        case False
        with T \<open>cur = ''''\<close> A AD
        have CL: "colorLoop cl t lc (storeLabels (view (remote wa))) [] wa = (msgs, w1)"
          by (simp add: applyLabel_def)
        from store_colorLoop [OF B, of t lc "storeLabels (view (remote wa))" "[]" wa] CL
        have att1: "attached (view (remote w1)) = attached (view (remote wa))"
          and col1: "if \<exists>l\<in>set (storeLabels (view (remote wa))). Name l = t \<and> Color l \<noteq> lc
                     then colorOf (view (remote w1)) t = lc
                     else colorOf (view (remote w1)) = colorOf (view (remote wa))"
          by auto
        have "t \<in> set (attached (view (remote wa)))" using atta by simp
        then have "(\<exists>l\<in>set (storeLabels (view (remote wa))). Name l = t \<and> Color l \<noteq> lc) \<longleftrightarrow>
            colorOf (view (remote wa)) t \<noteq> lc"
          by (auto simp: storeLabels_def)
        with col1 have "colorOf (view (remote w1)) t = lc"
          by (auto split: if_splits)
        with att1 atta clean False T show ?thesis by (auto simp: reconciled_def)
      qed
    next
      case False
      then have tin: "t \<in> set (attached (view (remote w)))"
        and curc: "cur = colorOf (view (remote w)) t"
        by (auto simp: cur_def split: if_splits)
      from tin attr have tr: "t \<in> set (attached (view (remote wr)))" by simp
      show ?thesis
      proof (cases "lc \<noteq> '''' \<and> lc \<noteq> cur")
        case True
        from store_update [OF B, of t lc wr] obtain wu where
          UP: "callUpdateLabel cl t lc wr = (None, wu)"
          and attu: "attached (view (remote wu)) = attached (view (remote wr))"
          and colu: "colorOf (view (remote wu)) = (colorOf (view (remote wr)))(t := lc)"
          by (elim exE conjE) (rule that)
        from True T False A UP have "w1 = wu"
          by (simp add: applyLabel_def)
        with attu colu have "attached (view (remote w1)) = attached (view (remote wr))"
          "colorOf (view (remote w1)) t = lc"
          by simp_all
        with tr clean True T show ?thesis by (auto simp: reconciled_def)
      next
        case F: False
        with T False A have "w1 = wr" by (auto simp: applyLabel_def)
        with tr clean F False T colr curc show ?thesis by (auto simp: reconciled_def)
      qed
    qed
  qed
qed

text \<open>
  Claim C6, amended. Label reconciliation is idempotent against every label client
  that behaves as a label store, provided the first run left the target label, if one
  is selected, stored with a non-empty color: a second run with the same parse result
  and configuration then makes no label mutation. It issues the listing call and
  nothing else, records no message and leaves the attached labels and the colors as
  they are.
\<close>

theorem updateLabels_idempotent:
  assumes store: "behavesAsStore cl view"
      and first: "updateLabels cl d cfg result w = (out, w1)"
      and colored: "fst (selectLabel (ResultLabels cfg) result) = '''' \<or>
                    colorOf (view (remote w1)) (fst (selectLabel (ResultLabels cfg) result)) \<noteq> ''''"
  shows "\<exists>w2. updateLabels cl d cfg result w1 = (Returned [], w2) \<and>
           calls w2 = calls w1 @ [ListLabelsCall (Number (PR cfg))] \<and>
           attached (view (remote w2)) = attached (view (remote w1)) \<and>
           colorOf (view (remote w2)) = colorOf (view (remote w1))"
proof -
  obtain t lc where sel: "selectLabel (ResultLabels cfg) result = (t, lc)"
    by (metis surj_pair)
  with colored have "t = '''' \<or> colorOf (view (remote w1)) t \<noteq> ''''" by simp
  from updateLabels_reconciles [OF store sel first this]
  show ?thesis by (rule updateLabels_reconciled [OF store sel])
qed

text \<open>
  The label store behaves as a label store. A stale \<open>destroy\<close> label and an unrelated
  label are attached: the first run removes \<open>destroy\<close>, adds \<open>add-or-update\<close> and sets
  its color; the second run only lists.
\<close>

theorem updateLabels_idempotent_witness:
  "behavesAsStore memClient (\<lambda>s. s) \<and>
   updateLabels memClient sampleDeps (sampleConfig PlanParser emptyResult 7)
     (emptyResult\<lparr>HasAddOrUpdateOnly := True\<rparr>)
     (startWorld (sampleStore [''destroy'', ''unrelated''])) =
   (Returned [],
    \<lparr>remote = (sampleStore [''unrelated'', ''add-or-update''])
        \<lparr>colorOf := (\<lambda>n. '''')(''add-or-update'' := ''1d76db'')\<rparr>,
     calls = [ListLabelsCall 7, RemoveLabelCall 7 ''destroy'',
              AddLabelsCall 7 [''add-or-update''],
              UpdateLabelCall ''add-or-update'' ''1d76db'']\<rparr>) \<and>
   updateLabels memClient sampleDeps (sampleConfig PlanParser emptyResult 7)
     (emptyResult\<lparr>HasAddOrUpdateOnly := True\<rparr>)
     \<lparr>remote = (sampleStore [''unrelated'', ''add-or-update''])
        \<lparr>colorOf := (\<lambda>n. '''')(''add-or-update'' := ''1d76db'')\<rparr>,
      calls = [ListLabelsCall 7, RemoveLabelCall 7 ''destroy'',
               AddLabelsCall 7 [''add-or-update''],
               UpdateLabelCall ''add-or-update'' ''1d76db'']\<rparr> =
   (Returned [],
    \<lparr>remote = (sampleStore [''unrelated'', ''add-or-update''])
        \<lparr>colorOf := (\<lambda>n. '''')(''add-or-update'' := ''1d76db'')\<rparr>,
     calls = [ListLabelsCall 7, RemoveLabelCall 7 ''destroy'',
              AddLabelsCall 7 [''add-or-update''],
              UpdateLabelCall ''add-or-update'' ''1d76db'', ListLabelsCall 7]\<rparr>)"
proof -
  let ?cfg = "sampleConfig PlanParser emptyResult 7"
  let ?res = "emptyResult\<lparr>HasAddOrUpdateOnly := True\<rparr>"
  let ?w1 = "\<lparr>remote = (sampleStore [''unrelated'', ''add-or-update''])
        \<lparr>colorOf := (\<lambda>n. '''')(''add-or-update'' := ''1d76db'')\<rparr>,
     calls = [ListLabelsCall 7, RemoveLabelCall 7 ''destroy'',
              AddLabelsCall 7 [''add-or-update''],
              UpdateLabelCall ''add-or-update'' ''1d76db'']\<rparr>"
  have store: "behavesAsStore memClient (\<lambda>s. s)"
    by (simp add: behavesAsStore_def memClient_def Let_def)
  have first: "updateLabels memClient sampleDeps ?cfg ?res
      (startWorld (sampleStore [''destroy'', ''unrelated''])) = (Returned [], ?w1)"
    by (simp add: notify_defs call_defs sample_defs)
  have colored: "fst (selectLabel (ResultLabels ?cfg) ?res) = '''' \<or>
      colorOf ((\<lambda>s. s) (remote ?w1)) (fst (selectLabel (ResultLabels ?cfg) ?res)) \<noteq> ''''"
    by (simp add: selectLabel_def sample_defs)
  have second: "updateLabels memClient sampleDeps ?cfg ?res ?w1 =
      (Returned [], ?w1\<lparr>calls := calls ?w1 @ [ListLabelsCall 7]\<rparr>)"
    by (simp add: notify_defs call_defs sample_defs)
  from updateLabels_idempotent [OF store first colored]
  obtain w2 where "updateLabels memClient sampleDeps ?cfg ?res ?w1 = (Returned [], w2)"
    by (elim exE conjE) (rule that)
  with second have "w2 = ?w1\<lparr>calls := calls ?w1 @ [ListLabelsCall 7]\<rparr>" by simp
  with store first second show ?thesis by simp
qed

text \<open>
  The claim as stated fails in three ways. Against the store, a target listed with
  the empty color and without configured color is added again by the second run.
  Behind a removal endpoint that answers 500 once, the first run stops at the first
  stale label and the second run removes both stale labels. Behind a color-update
  endpoint that answers without error and keeps the stored color, the second run
  issues the color update again.
\<close>

theorem updateLabels_idempotent_counterexample:
  "updateLabels memClient sampleDeps (sampleConfig PlanParser emptyResult 7)
     (emptyResult\<lparr>HasNoChanges := True\<rparr>) (startWorld (sampleStore [])) =
   (Returned [],
    \<lparr>remote = sampleStore [''no-changes''],
     calls = [ListLabelsCall 7, AddLabelsCall 7 [''no-changes'']]\<rparr>) \<and>
   updateLabels memClient sampleDeps (sampleConfig PlanParser emptyResult 7)
     (emptyResult\<lparr>HasNoChanges := True\<rparr>)
     \<lparr>remote = sampleStore [''no-changes''],
      calls = [ListLabelsCall 7, AddLabelsCall 7 [''no-changes'']]\<rparr> =
   (Returned [],
    \<lparr>remote = sampleStore [''no-changes''],
     calls = [ListLabelsCall 7, AddLabelsCall 7 [''no-changes''],
              ListLabelsCall 7, AddLabelsCall 7 [''no-changes'']]\<rparr>) \<and>
   updateLabels flakyRemoval sampleDeps (sampleConfig PlanParser emptyResult 7)
     (emptyResult\<lparr>HasAddOrUpdateOnly := True\<rparr>)
     (startWorld (1, (sampleStore [''destroy'', ''plan-error''])\<lparr>colorOf := (\<lambda>n. ''ededed'')\<rparr>)) =
   (Returned [''remove labels: 500 Internal Server Error''],
    \<lparr>remote = (0, (sampleStore [''destroy'', ''plan-error'', ''add-or-update''])
        \<lparr>colorOf := (\<lambda>n. ''ededed'')(''add-or-update'' := ''1d76db'')\<rparr>),
     calls = [ListLabelsCall 7, RemoveLabelCall 7 ''destroy'',
              AddLabelsCall 7 [''add-or-update''],
              UpdateLabelCall ''add-or-update'' ''1d76db'']\<rparr>) \<and>
   updateLabels flakyRemoval sampleDeps (sampleConfig PlanParser emptyResult 7)
     (emptyResult\<lparr>HasAddOrUpdateOnly := True\<rparr>)
     \<lparr>remote = (0, (sampleStore [''destroy'', ''plan-error'', ''add-or-update''])
        \<lparr>colorOf := (\<lambda>n. ''ededed'')(''add-or-update'' := ''1d76db'')\<rparr>),
      calls = []\<rparr> =
   (Returned [],
    \<lparr>remote = (0, (sampleStore [''add-or-update''])
        \<lparr>colorOf := (\<lambda>n. ''ededed'')(''add-or-update'' := ''1d76db'')\<rparr>),
     calls = [ListLabelsCall 7, RemoveLabelCall 7 ''destroy'',
              RemoveLabelCall 7 ''plan-error'']\<rparr>) \<and>
   updateLabels keepingColor sampleDeps (sampleConfig PlanParser emptyResult 7)
     (emptyResult\<lparr>HasAddOrUpdateOnly := True\<rparr>)
     (startWorld ((sampleStore [''add-or-update''])\<lparr>colorOf := (\<lambda>n. ''ededed'')\<rparr>)) =
   (Returned [],
    \<lparr>remote = (sampleStore [''add-or-update''])\<lparr>colorOf := (\<lambda>n. ''ededed'')\<rparr>,
     calls = [ListLabelsCall 7, UpdateLabelCall ''add-or-update'' ''1d76db'']\<rparr>) \<and>
   updateLabels keepingColor sampleDeps (sampleConfig PlanParser emptyResult 7)
     (emptyResult\<lparr>HasAddOrUpdateOnly := True\<rparr>)
     \<lparr>remote = (sampleStore [''add-or-update''])\<lparr>colorOf := (\<lambda>n. ''ededed'')\<rparr>,
      calls = [ListLabelsCall 7, UpdateLabelCall ''add-or-update'' ''1d76db'']\<rparr> =
   (Returned [],
    \<lparr>remote = (sampleStore [''add-or-update''])\<lparr>colorOf := (\<lambda>n. ''ededed'')\<rparr>,
     calls = [ListLabelsCall 7, UpdateLabelCall ''add-or-update'' ''1d76db'',
              ListLabelsCall 7, UpdateLabelCall ''add-or-update'' ''1d76db'']\<rparr>)"
  by (simp add: notify_defs call_defs sample_defs removeMsg_def)

end
